theory Spec2Isabelle
  imports Main
begin

section \<open>The Boolean graph: nodes, gates and the heap they live in\<close>

text \<open>
  The preprocessor (\<^verbatim>\<open>preprocessor.cc\<close>) rewrites a graph of reference-counted
  \<^verbatim>\<open>IGate\<close> objects in place. The embedding keeps the objects in an explicit heap
  indexed by the node index; a pointer is the index of the node it points to, and a
  signed argument \<open>a\<close> of a gate refers to the node with index \<open>\<bar>a\<bar>\<close>.
\<close>

datatype Operator =
  kAndGate | kOrGate | kAtleastGate | kXorGate | kNotGate | kNandGate | kNorGate | kNullGate

datatype State = kNormalState | kNullState | kUnityState

text \<open>\<^verbatim>\<open>Node\<close>: the parents are a map keyed by the parent's index; the model keeps
  the keys, in ascending order.\<close>

record Node =
  parents :: "int list"

record Constant = Node +
  const_state :: bool

text \<open>\<^verbatim>\<open>IGate\<close>: \<open>args\<close> is the \<^verbatim>\<open>std::set<int>\<close> of signed indices, kept as a
  strictly ascending list, which is the order in which the source iterates over it.\<close>

record IGate = Node +
  type :: Operator
  state :: State
  vote_number :: int
  mark :: bool
  module :: bool
  args :: "int list"

text \<open>The heap: the gates, variables and constants by index, the counter that numbers
  new nodes, and \<open>held\<close>, the indices of the nodes to which a shared pointer outside
  the graph points (the root pointer of the graph, a local variable of a function that is
  running, a map of gates a function keeps), once for each such pointer.\<close>

record heap =
  gates :: "int \<Rightarrow> IGate option"
  variables :: "int \<Rightarrow> Node option"
  constants :: "int \<Rightarrow> Constant option"
  next_index :: int
  held :: "int list"

definition set_insert :: "int \<Rightarrow> int list \<Rightarrow> int list" where
  "set_insert a xs = (if a \<in> set xs then xs else insort a xs)"

definition set_erase :: "int \<Rightarrow> int list \<Rightarrow> int list" where
  "set_erase a xs = removeAll a xs"

text \<open>The back reference from a child to a parent, for whichever kind of node the
  child is.\<close>

definition insert_parent :: "int \<Rightarrow> int \<Rightarrow> heap \<Rightarrow> heap" where
  "insert_parent child p h =
     (case gates h child of
        Some G \<Rightarrow> h\<lparr>gates := (gates h)(child \<mapsto> G\<lparr>parents := set_insert p (parents G)\<rparr>)\<rparr>
      | None \<Rightarrow>
     (case variables h child of
        Some V \<Rightarrow> h\<lparr>variables := (variables h)(child \<mapsto> V\<lparr>parents := set_insert p (parents V)\<rparr>)\<rparr>
      | None \<Rightarrow>
     (case constants h child of
        Some C \<Rightarrow> h\<lparr>constants := (constants h)(child \<mapsto> C\<lparr>parents := set_insert p (parents C)\<rparr>)\<rparr>
      | None \<Rightarrow> h)))"

definition erase_parent :: "int \<Rightarrow> int \<Rightarrow> heap \<Rightarrow> heap" where
  "erase_parent child p h =
     (case gates h child of
        Some G \<Rightarrow> h\<lparr>gates := (gates h)(child \<mapsto> G\<lparr>parents := set_erase p (parents G)\<rparr>)\<rparr>
      | None \<Rightarrow>
     (case variables h child of
        Some V \<Rightarrow> h\<lparr>variables := (variables h)(child \<mapsto> V\<lparr>parents := set_erase p (parents V)\<rparr>)\<rparr>
      | None \<Rightarrow>
     (case constants h child of
        Some C \<Rightarrow> h\<lparr>constants := (constants h)(child \<mapsto> C\<lparr>parents := set_erase p (parents C)\<rparr>)\<rparr>
      | None \<Rightarrow> h)))"

subsection \<open>Member functions of \<^verbatim>\<open>IGate\<close>\<close>

text \<open>Modelled from the spec: the member functions of \<^verbatim>\<open>IGate\<close> are defined in
  \<^verbatim>\<open>boolean_graph.cc\<close>, which is not among the sources. The definitions below follow
  section 4.A of the specification.

  \<open>erase_arg(parent, signed_index)\<close> removes the argument and updates the parent back
  reference of the child.\<close>

definition EraseArg :: "int \<Rightarrow> int \<Rightarrow> heap \<Rightarrow> heap" where
  "EraseArg g arg h =
     (case gates h g of
        None \<Rightarrow> h
      | Some G \<Rightarrow>
          if arg \<in> set (args G)
          then erase_parent \<bar>arg\<bar> g (h\<lparr>gates := (gates h)(g \<mapsto> G\<lparr>args := set_erase arg (args G)\<rparr>)\<rparr>)
          else h)"

text \<open>Modelled from the spec: \<^verbatim>\<open>EraseAllArgs\<close> erases every argument in turn.\<close>

definition EraseAllArgs :: "int \<Rightarrow> heap \<Rightarrow> heap" where
  "EraseAllArgs g h =
     (case gates h g of
        None \<Rightarrow> h
      | Some G \<Rightarrow> fold (EraseArg g) (args G) h)"

text \<open>Modelled from the spec: \<open>make_unity()/nullify()\<close> collapse the gate to a constant
  state; by invariant 3 of section 3 a gate whose state is not Normal keeps no
  arguments.\<close>

definition set_state :: "int \<Rightarrow> State \<Rightarrow> heap \<Rightarrow> heap" where
  "set_state g st h =
     (case gates h g of
        None \<Rightarrow> h
      | Some G \<Rightarrow> h\<lparr>gates := (gates h)(g \<mapsto> G\<lparr>state := st\<rparr>)\<rparr>)"

definition MakeUnity :: "int \<Rightarrow> heap \<Rightarrow> heap" where
  "MakeUnity g h = EraseAllArgs g (set_state g kUnityState h)"

definition Nullify :: "int \<Rightarrow> heap \<Rightarrow> heap" where
  "Nullify g h = EraseAllArgs g (set_state g kNullState h)"

text \<open>The setters \<^verbatim>\<open>type(t)\<close> and \<^verbatim>\<open>vote_number(k)\<close>.\<close>

definition set_type :: "int \<Rightarrow> Operator \<Rightarrow> heap \<Rightarrow> heap" where
  "set_type g t h =
     (case gates h g of
        None \<Rightarrow> h
      | Some G \<Rightarrow> h\<lparr>gates := (gates h)(g \<mapsto> G\<lparr>type := t\<rparr>)\<rparr>)"

definition set_vote_number :: "int \<Rightarrow> int \<Rightarrow> heap \<Rightarrow> heap" where
  "set_vote_number g k h =
     (case gates h g of
        None \<Rightarrow> h
      | Some G \<Rightarrow> h\<lparr>gates := (gates h)(g \<mapsto> G\<lparr>vote_number := k\<rparr>)\<rparr>)"

text \<open>Getters; a gate that is not in the heap reads as a fresh, empty gate.\<close>

definition is_gate :: "heap \<Rightarrow> int \<Rightarrow> bool" where
  "is_gate h g = (gates h g \<noteq> None)"

definition type_of :: "heap \<Rightarrow> int \<Rightarrow> Operator" where
  "type_of h g = (case gates h g of Some G \<Rightarrow> type G | None \<Rightarrow> kNullGate)"

definition state_of :: "heap \<Rightarrow> int \<Rightarrow> State" where
  "state_of h g = (case gates h g of Some G \<Rightarrow> state G | None \<Rightarrow> kNormalState)"

definition args_of :: "heap \<Rightarrow> int \<Rightarrow> int list" where
  "args_of h g = (case gates h g of Some G \<Rightarrow> args G | None \<Rightarrow> [])"

definition vote_number_of :: "heap \<Rightarrow> int \<Rightarrow> int" where
  "vote_number_of h g = (case gates h g of Some G \<Rightarrow> vote_number G | None \<Rightarrow> 0)"

text \<open>Modelled from the spec: \<open>add_arg(parent, signed_index, child)\<close> inserts; an exact
  duplicate is a no-op; on the complement of an argument already present the state
  becomes Unity for OR and Null for AND and NAND, as section 4.A words it. The
  specification names no other kind there; the model leaves such a gate unchanged.\<close>

definition AddArg :: "int \<Rightarrow> int \<Rightarrow> heap \<Rightarrow> heap" where
  "AddArg g arg h =
     (case gates h g of
        None \<Rightarrow> h
      | Some G \<Rightarrow>
          if arg \<in> set (args G) then h
          else if - arg \<in> set (args G) then
            (case type G of
               kOrGate \<Rightarrow> MakeUnity g h
             | kAndGate \<Rightarrow> Nullify g h
             | kNandGate \<Rightarrow> Nullify g h
             | _ \<Rightarrow> h)
          else insert_parent \<bar>arg\<bar> g
                 (h\<lparr>gates := (gates h)(g \<mapsto> G\<lparr>args := set_insert arg (args G)\<rparr>)\<rparr>))"

text \<open>Modelled from the spec: \<open>share_arg(from, signed_index, to)\<close> copies the argument,
  with the same sign and child, into \<open>to\<close>.\<close>

definition ShareArg :: "int \<Rightarrow> int \<Rightarrow> int \<Rightarrow> heap \<Rightarrow> heap" where
  "ShareArg g arg recipient h =
     (if arg \<in> set (args_of h g) then AddArg recipient arg h else h)"

text \<open>Modelled from the spec: \<open>invert_arg(parent, signed_index)\<close> flips the sign in
  place; the child and its back reference stay.\<close>

definition InvertArg :: "int \<Rightarrow> int \<Rightarrow> heap \<Rightarrow> heap" where
  "InvertArg g arg h =
     (case gates h g of
        None \<Rightarrow> h
      | Some G \<Rightarrow>
          if arg \<in> set (args G)
          then h\<lparr>gates := (gates h)(g \<mapsto> G\<lparr>args := set_insert (- arg) (set_erase arg (args G))\<rparr>)\<rparr>
          else h)"

definition set_mark :: "int \<Rightarrow> bool \<Rightarrow> heap \<Rightarrow> heap" where
  "set_mark g b h =
     (case gates h g of
        None \<Rightarrow> h
      | Some G \<Rightarrow> h\<lparr>gates := (gates h)(g \<mapsto> G\<lparr>mark := b\<rparr>)\<rparr>)"

text \<open>Modelled from the spec: \<^verbatim>\<open>new IGate(type)\<close> yields a gate with a fresh index (the
  next value of the index counter), in Normal state, unmarked, with no arguments and no
  parents.\<close>

definition new_IGate :: "Operator \<Rightarrow> heap \<Rightarrow> int \<times> heap" where
  "new_IGate t h =
     (next_index h,
      h\<lparr>gates := (gates h)(next_index h \<mapsto>
           \<lparr>parents = [], type = t, state = kNormalState, vote_number = 0,
            mark = False, module = False, args = []\<rparr>),
        next_index := next_index h + 1\<rparr>)"

section \<open>Constant propagation: absorbing a constant argument\<close>

text \<open>\<^verbatim>\<open>Preprocessor::RemoveConstantArg\<close>.\<close>

definition RemoveConstantArg :: "int \<Rightarrow> int \<Rightarrow> heap \<Rightarrow> heap" where
  "RemoveConstantArg g arg h =
     (let h1 = EraseArg g arg h in
      if length (args_of h1 g) = 1 then
        (case type_of h1 g of
           kXorGate \<Rightarrow> set_type g kNullGate h1
         | kOrGate \<Rightarrow> set_type g kNullGate h1
         | kAndGate \<Rightarrow> set_type g kNullGate h1
         | kNorGate \<Rightarrow> set_type g kNotGate h1
         | kNandGate \<Rightarrow> set_type g kNotGate h1
         | _ \<Rightarrow> h1)
      else h1)"

text \<open>\<^verbatim>\<open>Preprocessor::ProcessTrueArg\<close>: one branch per \<^verbatim>\<open>case\<close> group of the
  \<^verbatim>\<open>switch\<close>; every group of the source ends in \<^verbatim>\<open>break\<close>.\<close>

definition ProcessTrueArg :: "int \<Rightarrow> int \<Rightarrow> heap \<Rightarrow> heap" where
  "ProcessTrueArg g arg h =
     (case type_of h g of
        kNullGate \<Rightarrow> MakeUnity g h
      | kOrGate \<Rightarrow> MakeUnity g h
      | kNandGate \<Rightarrow> RemoveConstantArg g arg h
      | kAndGate \<Rightarrow> RemoveConstantArg g arg h
      | kNorGate \<Rightarrow> Nullify g h
      | kNotGate \<Rightarrow> Nullify g h
      | kXorGate \<Rightarrow> set_type g kNotGate (EraseArg g arg h)
      | kAtleastGate \<Rightarrow>
          (let h1 = EraseArg g arg h;
               k = vote_number_of h1 g - 1;
               h2 = set_vote_number g k h1
           in if k = 1 then set_type g kOrGate h2 else h2))"

text \<open>\<^verbatim>\<open>Preprocessor::ProcessFalseArg\<close>.\<close>

definition ProcessFalseArg :: "int \<Rightarrow> int \<Rightarrow> heap \<Rightarrow> heap" where
  "ProcessFalseArg g arg h =
     (case type_of h g of
        kNorGate \<Rightarrow> RemoveConstantArg g arg h
      | kXorGate \<Rightarrow> RemoveConstantArg g arg h
      | kOrGate \<Rightarrow> RemoveConstantArg g arg h
      | kNullGate \<Rightarrow> Nullify g h
      | kAndGate \<Rightarrow> Nullify g h
      | kNandGate \<Rightarrow> MakeUnity g h
      | kNotGate \<Rightarrow> MakeUnity g h
      | kAtleastGate \<Rightarrow>
          (let h1 = EraseArg g arg h;
               k = vote_number_of h1 g;
               n = int (length (args_of h1 g))
           in if k = n then set_type g kAndGate h1 else h1))"

text \<open>\<^verbatim>\<open>Preprocessor::ProcessConstantArg\<close>: the sign of the argument is applied to
  the value first.\<close>

definition ProcessConstantArg :: "int \<Rightarrow> int \<Rightarrow> bool \<Rightarrow> heap \<Rightarrow> heap" where
  "ProcessConstantArg g arg st h =
     (let st' = (if arg < 0 then \<not> st else st) in
      if st' then ProcessTrueArg g arg h else ProcessFalseArg g arg h)"

section \<open>Normalization of XOR and ATLEAST gates\<close>

text \<open>\<^verbatim>\<open>Preprocessor::NormalizeXorGate\<close>. The iterator walks the argument set of the
  gate, which the calls before \<^verbatim>\<open>EraseAllArgs\<close> do not change; a gate with fewer than
  two arguments violates the assertion of the source and has no result here.\<close>

definition NormalizeXorGate :: "int \<Rightarrow> heap \<Rightarrow> heap option" where
  "NormalizeXorGate g h =
     (let (gate_one, h1) = new_IGate kAndGate h;
          (gate_two, h2) = new_IGate kAndGate h1;
          h3 = set_mark gate_one True h2;
          h4 = set_mark gate_two True h3;
          h5 = set_type g kOrGate h4
      in case args_of h5 g of
           a # b # _ \<Rightarrow>
             (let h6 = ShareArg g a gate_one h5;
                  h7 = ShareArg g a gate_two h6;
                  h8 = InvertArg gate_two a h7;
                  h9 = ShareArg g b gate_one h8;
                  h10 = InvertArg gate_one b h9;
                  h11 = ShareArg g b gate_two h10;
                  h12 = EraseAllArgs g h11;
                  h13 = AddArg g gate_one h12
              in Some (AddArg g gate_two h13))
         | _ \<Rightarrow> None)"

text \<open>\<^verbatim>\<open>Preprocessor::NormalizeAtleastGate\<close>. The recursion of the source is on the two
  new ATLEAST gates; the model counts it down with fuel, and \<open>None\<close> is "no result":
  out of fuel, or a gate without arguments, whose first argument the source would read
  past the end of the set.\<close>

fun NormalizeAtleastGate :: "nat \<Rightarrow> int \<Rightarrow> heap \<Rightarrow> heap option" where
  "NormalizeAtleastGate 0 g h = None"
| "NormalizeAtleastGate (Suc fuel) g h =
     (let vote_number = vote_number_of h g in
      if int (length (args_of h g)) = vote_number then Some (set_type g kAndGate h)
      else if vote_number = 1 then Some (set_type g kOrGate h)
      else
        (case args_of h g of
           [] \<Rightarrow> None
         | x # xs \<Rightarrow>
             (let (first_arg, h1) = new_IGate kAndGate h;
                  h2 = ShareArg g x first_arg h1;
                  (grand_arg, h3) = new_IGate kAtleastGate h2;
                  h4 = AddArg first_arg grand_arg h3;
                  h5 = set_vote_number grand_arg (vote_number - 1) h4;
                  (second_arg, h6) = new_IGate kAtleastGate h5;
                  h7 = set_vote_number second_arg vote_number h6;
                  h8 = fold (\<lambda>a. ShareArg g a second_arg \<circ> ShareArg g a grand_arg) xs h7;
                  h9 = set_mark first_arg True h8;
                  h10 = set_mark second_arg True h9;
                  h11 = set_mark grand_arg True h10;
                  h12 = set_type g kOrGate h11;
                  h13 = EraseAllArgs g h12;
                  h14 = AddArg g first_arg h13;
                  h15 = AddArg g second_arg h14
              in case NormalizeAtleastGate fuel grand_arg h15 of
                   None \<Rightarrow> None
                 | Some h16 \<Rightarrow> NormalizeAtleastGate fuel second_arg h16)))"

subsection \<open>Formulas, and the formula a gate of the heap stands for\<close>

datatype formula = Arg int | Gate Operator "formula list" | Atleast int "formula list"




section \<open>Notions used to state the properties\<close>

text \<open>What a gate shows to the algorithms that read it: whether it exists, its kind,
  state, vote number and arguments. The parents, the mark and the module flag are left
  out.\<close>

definition gate_view :: "heap \<Rightarrow> int \<Rightarrow> bool \<times> Operator \<times> State \<times> int \<times> int list" where
  "gate_view h i = (is_gate h i, type_of h i, state_of h i, vote_number_of h i, args_of h i)"


text \<open>The ATLEAST row of the table of section 4.B, in the words of the specification:
  for a TRUE argument "erase arg, k \<open>\<leftarrow>\<close> k - 1; if k = 1 kind \<open>\<leftarrow>\<close> OR", for a FALSE
  argument "erase arg; if k = n kind \<open>\<leftarrow>\<close> AND", where \<open>n\<close> counts the arguments that
  remain. It maps the kind, vote number and arguments of the gate to the new ones.\<close>

definition atleast_row :: "bool \<Rightarrow> int \<Rightarrow> Operator \<times> int \<times> int list \<Rightarrow> Operator \<times> int \<times> int list" where
  "atleast_row v arg = (\<lambda>(kind, k, as).
     if v then (if k - 1 = 1 then kOrGate else kind, k - 1, removeAll arg as)
     else (if k = int (length (removeAll arg as)) then kAndGate else kind, k, removeAll arg as))"

text \<open>A heap for examples: one gate, with index 10, over variables.\<close>

definition single_gate :: "Operator \<Rightarrow> int \<Rightarrow> int list \<Rightarrow> heap" where
  "single_gate t k as =
     \<lparr>gates = [10 \<mapsto> \<lparr>parents = [], type = t, state = kNormalState, vote_number = k,
                      mark = False, module = False, args = as\<rparr>],
      variables = (\<lambda>i. if i \<in> abs ` set as then Some \<lparr>parents = [10]\<rparr> else None),
      constants = Map.empty,
      next_index = 11,
      held = [10]\<rparr>"

section \<open>Ownership and the life of a gate\<close>

text \<open>Section 3 of the specification: a gate owns its arguments, the parents of a node
  are weak back references, and a gate whose last owner lets go of it is destroyed and
  lets go of its own arguments in turn. The source leaves this to \<^verbatim>\<open>std::shared_ptr\<close>.
  In the model a node is owned by the gates in its \<open>parents\<close> and by the pointers
  counted in \<open>held\<close>; \<open>collect\<close> destroys what nobody owns.\<close>

definition parents_of :: "heap \<Rightarrow> int \<Rightarrow> int list" where
  "parents_of h n =
     (case gates h n of
        Some G \<Rightarrow> parents G
      | None \<Rightarrow>
     (case variables h n of
        Some V \<Rightarrow> parents V
      | None \<Rightarrow>
     (case constants h n of
        Some C \<Rightarrow> parents C
      | None \<Rightarrow> [])))"

definition mark_of :: "heap \<Rightarrow> int \<Rightarrow> bool" where
  "mark_of h g = (case gates h g of Some G \<Rightarrow> mark G | None \<Rightarrow> False)"

definition hold :: "int \<Rightarrow> heap \<Rightarrow> heap" where
  "hold g h = h\<lparr>held := g # held h\<rparr>"

definition unhold :: "int \<Rightarrow> heap \<Rightarrow> heap" where
  "unhold g h = h\<lparr>held := remove1 g (held h)\<rparr>"

text \<open>\<open>reclaim n ws h\<close> looks at the nodes of the work list \<open>ws\<close>: a gate or constant
  that has no parent and is not held is destroyed; a destroyed gate erases its arguments,
  which are looked at next. At most \<open>n\<close> gates are destroyed; \<open>collect\<close> starts with as
  many as there are indices, and from every index.\<close>

fun reclaim :: "nat \<Rightarrow> int list \<Rightarrow> heap \<Rightarrow> heap" where
  "reclaim 0 ws h = h"
| "reclaim (Suc n) [] h = h"
| "reclaim (Suc n) (g # ws) h =
     (if g \<in> set (held h) \<or> parents_of h g \<noteq> [] then reclaim (Suc n) ws h
      else
        (case gates h g of
           Some G \<Rightarrow>
             reclaim n (map abs (args G) @ ws)
               ((EraseAllArgs g h)\<lparr>gates := (gates (EraseAllArgs g h))(g := None)\<rparr>)
         | None \<Rightarrow>
        (case constants h g of
           Some C \<Rightarrow> reclaim (Suc n) ws (h\<lparr>constants := (constants h)(g := None)\<rparr>)
         | None \<Rightarrow> reclaim (Suc n) ws h)))"

definition collect :: "heap \<Rightarrow> heap" where
  "collect h = reclaim (nat (next_index h)) [1..next_index h - 1] h"

text \<open>A weak pointer to a gate or to a constant has expired when the node is gone.\<close>

definition expired :: "heap \<Rightarrow> int \<Rightarrow> bool" where
  "expired h n = (gates h n = None \<and> constants h n = None)"

subsection \<open>More member functions of \<^verbatim>\<open>IGate\<close> and of the graph\<close>

text \<open>The arguments of a gate that are gates. The source walks an unordered map here;
  the model walks it in ascending order of the signed index, the order section 5 of the
  specification asks of argument containers.\<close>

definition gate_args :: "heap \<Rightarrow> int \<Rightarrow> int list" where
  "gate_args h g = filter (\<lambda>a. is_gate h \<bar>a\<bar>) (args_of h g)"

definition variable_args :: "heap \<Rightarrow> int \<Rightarrow> int list" where
  "variable_args h g = filter (\<lambda>a. variables h \<bar>a\<bar> \<noteq> None) (args_of h g)"

text \<open>Modelled from the spec: \<open>invert_args()\<close> flips the signs of all arguments.\<close>

definition InvertArgs :: "int \<Rightarrow> heap \<Rightarrow> heap" where
  "InvertArgs g h =
     (case gates h g of
        None \<Rightarrow> h
      | Some G \<Rightarrow> h\<lparr>gates := (gates h)(g \<mapsto> G\<lparr>args := sort (map uminus (args G))\<rparr>)\<rparr>)"

text \<open>Modelled from the spec: \<open>join_null_gate(parent, signed_index)\<close> replaces the
  reference of the parent to a NULL-kind child with the single argument of the child,
  its sign multiplied by the sign of the reference.\<close>

definition JoinNullGate :: "int \<Rightarrow> int \<Rightarrow> heap \<Rightarrow> heap" where
  "JoinNullGate g index h =
     (case args_of h \<bar>index\<bar> of
        [] \<Rightarrow> EraseArg g index h
      | a # _ \<Rightarrow> AddArg g (if index > 0 then a else - a) (EraseArg g index h))"

text \<open>Modelled from the spec: the clone of a gate is a new gate, with a fresh index, of
  the same kind, vote number and arguments; it becomes one more parent of the arguments,
  which are not copied. It is in Normal state and unmarked, as a new gate is.\<close>

definition Clone :: "int \<Rightarrow> heap \<Rightarrow> int \<times> heap" where
  "Clone g h =
     (let (c, h1) = new_IGate (type_of h g) h;
          h2 = set_vote_number c (vote_number_of h g) h1
      in (c, fold (AddArg c) (args_of h g) h2))"

text \<open>Modelled from the spec: \<^verbatim>\<open>BooleanGraph::ClearGateMarks\<close> clears the mark of the
  gates.\<close>

definition ClearGateMarks :: "heap \<Rightarrow> heap" where
  "ClearGateMarks h = h\<lparr>gates := (\<lambda>i. map_option (\<lambda>G. G\<lparr>mark := False\<rparr>) (gates h i))\<rparr>"

section \<open>The state of the preprocessor\<close>

text \<open>What the rewriting algorithms work on: the heap, the root pointer and the two
  lists of weak pointers of the graph (\<^verbatim>\<open>graph_->constants_\<close>, \<^verbatim>\<open>graph_->null_gates_\<close>),
  and the members \<^verbatim>\<open>root_sign_\<close>, \<^verbatim>\<open>const_gates_\<close> and \<^verbatim>\<open>null_gates_\<close> of the
  preprocessor.\<close>

record work =
  mem :: heap
  graph_root :: int
  graph_constants :: "int list"
  graph_null_gates :: "int list"
  root_sign :: int
  const_gates :: "int list"
  null_gates :: "int list"

text \<open>The flags \<^verbatim>\<open>coherent_\<close> and \<^verbatim>\<open>normal_\<close> of the graph are read and written by
  \<^verbatim>\<open>ProcessFaultTree\<close> and the phase functions only, so the model keeps them beside the
  working state, with the lines the phases write to the log at the levels DEBUG2 and
  DEBUG3 (without the durations).\<close>

record Preprocessor =
  work :: work
  coherent :: bool
  normal :: bool
  logger :: "string list"

definition LOG :: "string \<Rightarrow> Preprocessor \<Rightarrow> Preprocessor" where
  "LOG msg P = P\<lparr>logger := logger P @ [msg]\<rparr>"

text \<open>A change of the heap by a function of the preprocessor, after which the gates
  that nobody owns any more are gone.\<close>

definition upd :: "(heap \<Rightarrow> heap) \<Rightarrow> work \<Rightarrow> work" where
  "upd f w = w\<lparr>mem := collect (f (mem w))\<rparr>"

text \<open>A loop over a list whose body may not return.\<close>

fun mfold :: "('a \<Rightarrow> 's \<Rightarrow> 's option) \<Rightarrow> 'a list \<Rightarrow> 's \<Rightarrow> 's option" where
  "mfold f [] s = Some s"
| "mfold f (x # xs) s = (case f x s of None \<Rightarrow> None | Some s' \<Rightarrow> mfold f xs s')"

section \<open>Phase I: constants, partial normalization, NULL gates\<close>

text \<open>\<^verbatim>\<open>Preprocessor::PropagateConstGate\<close> and \<^verbatim>\<open>Preprocessor::PropagateNullGate\<close>. Each
  turn of the \<^verbatim>\<open>while\<close> loop takes the first parent, which the local pointer \<open>parent\<close>
  holds until the turn ends; the loop is the call on the same gate at the end. The
  recursion and the loops are counted down by the fuel; \<open>None\<close>: no result.\<close>

fun PropagateConstGate :: "nat \<Rightarrow> int \<Rightarrow> heap \<Rightarrow> heap option"
  and PropagateNullGate :: "nat \<Rightarrow> int \<Rightarrow> heap \<Rightarrow> heap option" where
  "PropagateConstGate 0 gate h = None"
| "PropagateConstGate (Suc fuel) gate h =
     (case parents_of h gate of
        [] \<Rightarrow> Some h
      | parent # _ \<Rightarrow>
          (let h0 = hold parent h;
               sign = (if gate \<in> set (args_of h0 parent) then 1 else - 1);
               state = (state_of h0 gate \<noteq> kNullState);
               h1 = collect (ProcessConstantArg parent (sign * gate) state h0)
           in case (if state_of h1 parent \<noteq> kNormalState then PropagateConstGate fuel parent h1
                    else if type_of h1 parent = kNullGate then PropagateNullGate fuel parent h1
                    else Some h1) of
                None \<Rightarrow> None
              | Some h2 \<Rightarrow> PropagateConstGate fuel gate (collect (unhold parent h2))))"
| "PropagateNullGate 0 gate h = None"
| "PropagateNullGate (Suc fuel) gate h =
     (case parents_of h gate of
        [] \<Rightarrow> Some h
      | parent # _ \<Rightarrow>
          (let h0 = hold parent h;
               sign = (if gate \<in> set (args_of h0 parent) then 1 else - 1);
               h1 = collect (JoinNullGate parent (sign * gate) h0)
           in case (if state_of h1 parent \<noteq> kNormalState then PropagateConstGate fuel parent h1
                    else if type_of h1 parent = kNullGate then PropagateNullGate fuel parent h1
                    else Some h1) of
                None \<Rightarrow> None
              | Some h2 \<Rightarrow> PropagateNullGate fuel gate (collect (unhold parent h2))))"

text \<open>\<^verbatim>\<open>Preprocessor::PropagateConstant\<close>.\<close>

fun PropagateConstant :: "nat \<Rightarrow> int \<Rightarrow> heap \<Rightarrow> heap option" where
  "PropagateConstant 0 constant h = None"
| "PropagateConstant (Suc fuel) constant h =
     (case parents_of h constant of
        [] \<Rightarrow> Some h
      | parent # _ \<Rightarrow>
          (let h0 = hold parent h;
               sign = (if constant \<in> set (args_of h0 parent) then 1 else - 1);
               state = (case constants h0 constant of Some C \<Rightarrow> const_state C | None \<Rightarrow> False);
               h1 = collect (ProcessConstantArg parent (sign * constant) state h0)
           in case (if state_of h1 parent \<noteq> kNormalState then PropagateConstGate fuel parent h1
                    else if type_of h1 parent = kNullGate then PropagateNullGate fuel parent h1
                    else Some h1) of
                None \<Rightarrow> None
              | Some h2 \<Rightarrow> PropagateConstant fuel constant (collect (unhold parent h2))))"

text \<open>\<^verbatim>\<open>Preprocessor::RemoveConstants\<close>: \<^verbatim>\<open>it->lock()\<close> holds the constant for the time
  of the call.\<close>

definition RemoveConstants :: "nat \<Rightarrow> work \<Rightarrow> work option" where
  "RemoveConstants fuel w =
     map_option (\<lambda>h. w\<lparr>mem := h, graph_constants := []\<rparr>)
       (mfold (\<lambda>c h. if expired h c then Some h
                      else map_option (\<lambda>h'. collect (unhold c h'))
                             (PropagateConstant fuel c (hold c h)))
          (graph_constants w) (mem w))"

text \<open>\<^verbatim>\<open>Preprocessor::ClearConstGates\<close> and \<^verbatim>\<open>Preprocessor::ClearNullGates\<close>.\<close>

definition ClearConstGates :: "nat \<Rightarrow> work \<Rightarrow> work option" where
  "ClearConstGates fuel w =
     map_option (\<lambda>h. w\<lparr>mem := h, const_gates := []\<rparr>)
       (mfold (\<lambda>g h. if expired h g then Some h
                      else map_option (\<lambda>h'. collect (unhold g h'))
                             (PropagateConstGate fuel g (hold g h)))
          (const_gates w) (ClearGateMarks (mem w)))"

definition ClearNullGates :: "nat \<Rightarrow> work \<Rightarrow> work option" where
  "ClearNullGates fuel w =
     map_option (\<lambda>h. w\<lparr>mem := h, null_gates := []\<rparr>)
       (mfold (\<lambda>g h. if expired h g then Some h
                      else map_option (\<lambda>h'. collect (unhold g h'))
                             (PropagateNullGate fuel g (hold g h)))
          (null_gates w) (ClearGateMarks (mem w)))"

text \<open>\<^verbatim>\<open>Preprocessor::RemoveNullGates\<close>.\<close>

definition RemoveNullGates :: "nat \<Rightarrow> work \<Rightarrow> work option" where
  "RemoveNullGates fuel w =
     (let w1 = w\<lparr>null_gates := graph_null_gates w, graph_null_gates := []\<rparr> in
      if null_gates w1 = [graph_root w1] then Some (w1\<lparr>null_gates := []\<rparr>)
      else ClearNullGates fuel w1)"

text \<open>\<^verbatim>\<open>Preprocessor::NotifyParentsOfNegativeGates\<close>: the kind of an argument is read after
  the call on it; the arguments to negate are inverted after the loop.\<close>

fun NotifyParentsOfNegativeGates :: "nat \<Rightarrow> int \<Rightarrow> heap \<Rightarrow> heap option" where
  "NotifyParentsOfNegativeGates 0 gate h = None"
| "NotifyParentsOfNegativeGates (Suc fuel) gate h =
     (if mark_of h gate then Some h
      else
        (let h1 = set_mark gate True h in
         case mfold (\<lambda>a (to_negate, h').
                 case NotifyParentsOfNegativeGates fuel \<bar>a\<bar> h' of
                   None \<Rightarrow> None
                 | Some h'' \<Rightarrow>
                     Some (if type_of h'' \<bar>a\<bar> \<in> {kNorGate, kNandGate, kNotGate}
                           then to_negate @ [a] else to_negate, h''))
                (gate_args h1 gate) ([], h1) of
           None \<Rightarrow> None
         | Some (to_negate, h2) \<Rightarrow> Some (fold (InvertArg gate) to_negate h2)))"

text \<open>\<^verbatim>\<open>Preprocessor::NormalizeGate\<close>. The assertions of the source (Normal state, some
  argument, an argument count that fits the kind) are not checked, as in a build with
  \<^verbatim>\<open>NDEBUG\<close>.\<close>

fun NormalizeGate :: "nat \<Rightarrow> bool \<Rightarrow> int \<Rightarrow> work \<Rightarrow> work option" where
  "NormalizeGate 0 full gate w = None"
| "NormalizeGate (Suc fuel) full gate w =
     (if mark_of (mem w) gate then Some w
      else
        (let w1 = w\<lparr>mem := set_mark gate True (mem w)\<rparr> in
         case mfold (\<lambda>a. NormalizeGate fuel full \<bar>a\<bar>) (gate_args (mem w1) gate) w1 of
           None \<Rightarrow> None
         | Some w2 \<Rightarrow>
             (case type_of (mem w2) gate of
                kNotGate \<Rightarrow>
                  Some (w2\<lparr>mem := set_type gate kNullGate (mem w2),
                           null_gates := null_gates w2 @ [gate]\<rparr>)
              | kNorGate \<Rightarrow> Some (w2\<lparr>mem := set_type gate kOrGate (mem w2)\<rparr>)
              | kOrGate \<Rightarrow> Some (w2\<lparr>mem := set_type gate kOrGate (mem w2)\<rparr>)
              | kNandGate \<Rightarrow> Some (w2\<lparr>mem := set_type gate kAndGate (mem w2)\<rparr>)
              | kAndGate \<Rightarrow> Some (w2\<lparr>mem := set_type gate kAndGate (mem w2)\<rparr>)
              | kXorGate \<Rightarrow>
                  if \<not> full then Some w2
                  else map_option (\<lambda>h. w2\<lparr>mem := collect h\<rparr>) (NormalizeXorGate gate (mem w2))
              | kAtleastGate \<Rightarrow>
                  if \<not> full then Some w2
                  else map_option (\<lambda>h. w2\<lparr>mem := collect h\<rparr>)
                         (NormalizeAtleastGate fuel gate (mem w2))
              | kNullGate \<Rightarrow> Some (w2\<lparr>null_gates := null_gates w2 @ [gate]\<rparr>))))"

text \<open>\<^verbatim>\<open>Preprocessor::NormalizeGates\<close>.\<close>

definition NormalizeGates :: "nat \<Rightarrow> bool \<Rightarrow> work \<Rightarrow> work option" where
  "NormalizeGates fuel full w =
     (let root_gate = graph_root w;
          w1 = (if type_of (mem w) root_gate \<in> {kNorGate, kNandGate, kNotGate}
                then w\<lparr>root_sign := root_sign w * (- 1)\<rparr> else w)
      in case NotifyParentsOfNegativeGates fuel root_gate (ClearGateMarks (mem w1)) of
           None \<Rightarrow> None
         | Some h2 \<Rightarrow>
             (case NormalizeGate fuel full root_gate (w1\<lparr>mem := ClearGateMarks h2\<rparr>) of
                None \<Rightarrow> None
              | Some w3 \<Rightarrow> ClearNullGates fuel w3))"

text \<open>\<^verbatim>\<open>Preprocessor::CheckRootGate\<close>. A new root is held by the root pointer of the graph
  from then on, and the old root no longer.\<close>

definition set_root :: "int \<Rightarrow> work \<Rightarrow> work" where
  "set_root r w = (upd (unhold (graph_root w) \<circ> hold r) w)\<lparr>graph_root := r\<rparr>"

definition CheckRootGate :: "work \<Rightarrow> bool \<times> work" where
  "CheckRootGate w =
     (let root = graph_root w in
      if state_of (mem w) root \<noteq> kNormalState then
        (if root_sign w < 0 then
           (let orig_state = state_of (mem w) root;
                (root', h1) = new_IGate kNullGate (mem w);
                w1 = set_root root' (w\<lparr>mem := h1\<rparr>);
                w2 = (if orig_state = kNullState then upd (MakeUnity root') w1
                      else upd (Nullify root') w1)
            in (True, w2\<lparr>root_sign := 1\<rparr>))
         else (True, w))
      else if type_of (mem w) root = kNullGate then
        (case gate_args (mem w) root of
           signed_index # _ \<Rightarrow>
             (False, (set_root \<bar>signed_index\<bar> w)
                       \<lparr>root_sign := root_sign w * (if signed_index > 0 then 1 else - 1)\<rparr>)
         | [] \<Rightarrow>
             (True, (if root_sign w < 0 then upd (InvertArgs root) w else w)\<lparr>root_sign := 1\<rparr>))
      else (False, w))"

section \<open>Phase IV: propagation of complements\<close>

text \<open>\<^verbatim>\<open>Preprocessor::PropagateComplements\<close>. The map \<open>gate_complements\<close> is a list of
  pairs, the index of a gate and the index of its complement; it holds the complements.
  The loop over the gate arguments collects \<open>to_swap\<close>; the second loop swaps.\<close>

fun PropagateComplements ::
  "nat \<Rightarrow> int \<Rightarrow> (int \<times> int) list \<times> heap \<Rightarrow> ((int \<times> int) list \<times> heap) option" where
  "PropagateComplements 0 gate ch = None"
| "PropagateComplements (Suc fuel) gate (gate_complements, h) =
     (if mark_of h gate then Some (gate_complements, h)
      else
        (let h1 = set_mark gate True h in
         case mfold (\<lambda>a (to_swap, cs, h').
                 if a < 0 then
                   (if map_of cs \<bar>a\<bar> \<noteq> None then Some (to_swap @ [a], cs, h')
                    else
                      (let complement_type =
                             (if type_of h' \<bar>a\<bar> = kOrGate then kAndGate else kOrGate);
                           (complement_gate, h2) =
                             (if length (parents_of h' \<bar>a\<bar>) = 1
                              then (\<bar>a\<bar>, InvertArgs \<bar>a\<bar> (set_type \<bar>a\<bar> complement_type h'))
                              else (let (c, hc) = Clone \<bar>a\<bar> h'
                                    in (c, InvertArgs c (set_type c complement_type hc))))
                       in case PropagateComplements fuel complement_gate
                                 (cs @ [(\<bar>a\<bar>, complement_gate)], hold complement_gate h2) of
                            None \<Rightarrow> None
                          | Some (cs', h3) \<Rightarrow> Some (to_swap @ [a], cs', h3)))
                 else
                   (case PropagateComplements fuel \<bar>a\<bar> (cs, h') of
                      None \<Rightarrow> None
                    | Some (cs', h3) \<Rightarrow> Some (to_swap, cs', h3)))
                (gate_args h1 gate) ([], gate_complements, h1) of
           None \<Rightarrow> None
         | Some (to_swap, cs, h4) \<Rightarrow>
             Some (cs,
               fold (\<lambda>a h'. case map_of cs (- a) of
                               None \<Rightarrow> h'
                             | Some complement \<Rightarrow>
                                 collect (AddArg gate complement (EraseArg gate a h')))
                 to_swap h4)))"

section \<open>The phases\<close>

text \<open>The rewriting steps of Phase II and the coalescence of Phase V, as parameters of
  the phase functions: what is proved of the phases below holds whatever these steps do
  to the working state, and whether or not they return. \<open>ProcessMultipleDefinitions\<close>
  returns whether it changed the graph; \<open>DetectDistributivity\<close> and \<open>JoinGates\<close> stand
  for the calls on the root of the graph, \<open>JoinGates\<close> with the flag \<open>common\<close>.\<close>

record algorithms =
  ProcessMultipleDefinitions :: "work \<Rightarrow> (bool \<times> work) option"
  DetectModules :: "work \<Rightarrow> work option"
  MergeCommonArgs :: "work \<Rightarrow> work option"
  BooleanOptimization :: "work \<Rightarrow> work option"
  DecomposeCommonNodes :: "work \<Rightarrow> work option"
  DetectDistributivity :: "work \<Rightarrow> work option"
  JoinGates :: "bool \<Rightarrow> work \<Rightarrow> work option"

text \<open>A step on the working state, run inside the state of the preprocessor.\<close>

definition run :: "(work \<Rightarrow> work option) \<Rightarrow> Preprocessor \<Rightarrow> Preprocessor option" where
  "run f P = map_option (\<lambda>w. P\<lparr>work := w\<rparr>) (f (work P))"

definition check_root :: "Preprocessor \<Rightarrow> bool \<times> Preprocessor" where
  "check_root P = (fst (CheckRootGate (work P)), P\<lparr>work := snd (CheckRootGate (work P))\<rparr>)"

text \<open>\<^verbatim>\<open>Preprocessor::PhaseOne\<close>.\<close>

definition PhaseOne :: "nat \<Rightarrow> Preprocessor \<Rightarrow> Preprocessor option" where
  "PhaseOne fuel P =
     (case (if graph_constants (work P) \<noteq> []
            then map_option (LOG ''Constant are removed!'')
                   (run (RemoveConstants fuel) (LOG ''Removing constants...'' P))
            else Some P) of
        None \<Rightarrow> None
      | Some P1 \<Rightarrow>
     (case (if \<not> coherent P1
            then map_option (LOG ''Finished the partial normalization of gates!'')
                   (run (NormalizeGates fuel False)
                      (LOG ''Partial normalization of gates...'' P1))
            else Some P1) of
        None \<Rightarrow> None
      | Some P2 \<Rightarrow>
          if graph_null_gates (work P2) \<noteq> []
          then map_option (LOG ''Finished cleaning NULL gates!'')
                 (run (RemoveNullGates fuel) (LOG ''Removing NULL gates...'' P2))
          else Some P2))"

text \<open>The two loops of \<^verbatim>\<open>PhaseTwo\<close> and \<^verbatim>\<open>PhaseFive\<close>: multiple definitions until nothing
  changes, and coalescence until no constant gate is registered.\<close>

fun multiple_definitions_loop :: "algorithms \<Rightarrow> nat \<Rightarrow> work \<Rightarrow> work option" where
  "multiple_definitions_loop A 0 w = None"
| "multiple_definitions_loop A (Suc fuel) w =
     (case ProcessMultipleDefinitions A w of
        None \<Rightarrow> None
      | Some (graph_changed, w1) \<Rightarrow>
          if graph_changed then multiple_definitions_loop A fuel w1 else Some w1)"

fun coalesce_loop :: "algorithms \<Rightarrow> bool \<Rightarrow> nat \<Rightarrow> work \<Rightarrow> work option" where
  "coalesce_loop A common 0 w = None"
| "coalesce_loop A common (Suc fuel) w =
     (let w1 = w\<lparr>mem := ClearGateMarks (mem w)\<rparr> in
      case (if state_of (mem w1) (graph_root w1) = kNormalState then JoinGates A common w1
            else Some w1) of
        None \<Rightarrow> None
      | Some w2 \<Rightarrow>
          if const_gates w2 \<noteq> []
          then (case ClearConstGates fuel w2 of
                  None \<Rightarrow> None
                | Some w3 \<Rightarrow> coalesce_loop A common fuel w3)
          else Some w2)"

text \<open>\<^verbatim>\<open>Preprocessor::PhaseTwo\<close>. Each \<^verbatim>\<open>if (CheckRootGate()) return;\<close> is a branch that
  ends the phase with the state \<^verbatim>\<open>CheckRootGate\<close> leaves.\<close>

definition PhaseTwo :: "algorithms \<Rightarrow> nat \<Rightarrow> Preprocessor \<Rightarrow> Preprocessor option" where
  "PhaseTwo A fuel P =
     (case run (multiple_definitions_loop A fuel) (LOG ''Detecting multiple definitions...'' P) of
        None \<Rightarrow> None
      | Some P1 \<Rightarrow>
     (let (stop1, P2) = check_root (LOG ''Finished multi-definition detection'' P1) in
      if stop1 then Some P2 else
     (case run (DetectModules A) (LOG ''Detecting modules...'' P2) of
        None \<Rightarrow> None
      | Some P3 \<Rightarrow>
     (case run (MergeCommonArgs A)
             (LOG ''Merging common arguments...'' (LOG ''Finished module detection!'' P3)) of
        None \<Rightarrow> None
      | Some P4 \<Rightarrow>
     (case (if coherent P4
            then map_option (LOG ''Finished Boolean optimization'')
                   (run (BooleanOptimization A)
                      (LOG ''Boolean optimization...'' (LOG ''Finished merging common args'' P4)))
            else Some (LOG ''Finished merging common args'' P4)) of
        None \<Rightarrow> None
      | Some P5 \<Rightarrow>
     (let (stop2, P6) = check_root P5 in
      if stop2 then Some P6 else
     (case run (DecomposeCommonNodes A) (LOG ''Decomposition of common nodes...'' P6) of
        None \<Rightarrow> None
      | Some P7 \<Rightarrow>
     (let (stop3, P8) = check_root (LOG ''Finished the Decomposition'' P7) in
      if stop3 then Some P8 else
     (case run (\<lambda>w. case DetectDistributivity A (w\<lparr>mem := ClearGateMarks (mem w)\<rparr>) of
                       None \<Rightarrow> None
                     | Some w1 \<Rightarrow>
                         (case ClearConstGates fuel w1 of
                            None \<Rightarrow> None
                          | Some w2 \<Rightarrow> ClearNullGates fuel w2))
             (LOG ''Processing Distributivity...'' P8) of
        None \<Rightarrow> None
      | Some P9 \<Rightarrow>
     (case run (coalesce_loop A False fuel)
             (LOG ''Coalescing gates...'' (LOG ''Distributivity detection is done!'' P9)) of
        None \<Rightarrow> None
      | Some P10 \<Rightarrow>
     (let (stop4, P11) = check_root (LOG ''Gate coalescense is done!'' P10) in
      if stop4 then Some P11 else
        map_option (LOG ''Finished module detection!'')
          (run (DetectModules A) (LOG ''Detecting modules...'' P11)))))))))))))"

text \<open>\<^verbatim>\<open>Preprocessor::PhaseThree\<close>.\<close>

definition PhaseThree :: "algorithms \<Rightarrow> nat \<Rightarrow> Preprocessor \<Rightarrow> Preprocessor option" where
  "PhaseThree A fuel P =
     (case run (NormalizeGates fuel True) (LOG ''Full normalization of gates...'' P) of
        None \<Rightarrow> None
      | Some P1 \<Rightarrow>
          (let (stop, P2) = check_root (LOG ''Finished the full normalization gates!'' P1) in
           if stop then Some P2 else PhaseTwo A fuel P2))"

text \<open>\<^verbatim>\<open>Preprocessor::PhaseFour\<close>. When the map of complements is cleared at the end, it
  lets go of the gates it held.\<close>

definition PhaseFour :: "algorithms \<Rightarrow> nat \<Rightarrow> Preprocessor \<Rightarrow> Preprocessor option" where
  "PhaseFour A fuel P =
     (let P0 = LOG ''Propagating complements...'' P;
          w = work P0;
          root = graph_root w;
          w1 = (if root_sign w < 0
                then (w\<lparr>mem := InvertArgs root
                        (if type_of (mem w) root = kOrGate then set_type root kAndGate (mem w)
                         else if type_of (mem w) root = kAndGate then set_type root kOrGate (mem w)
                         else mem w)\<rparr>)\<lparr>root_sign := 1\<rparr>
                else w)
      in case PropagateComplements fuel (graph_root w1) ([], ClearGateMarks (mem w1)) of
           None \<Rightarrow> None
         | Some (complements, h) \<Rightarrow>
             (let w2 = w1\<lparr>mem := collect (fold unhold (map snd complements) h)\<rparr>;
                  (stop, P2) = check_root (LOG ''Complement propagation is done!'' (P0\<lparr>work := w2\<rparr>))
              in if stop then Some P2 else PhaseTwo A fuel P2))"

text \<open>\<^verbatim>\<open>Preprocessor::PhaseFive\<close>.\<close>

definition PhaseFive :: "algorithms \<Rightarrow> nat \<Rightarrow> Preprocessor \<Rightarrow> Preprocessor option" where
  "PhaseFive A fuel P =
     (case run (coalesce_loop A True fuel) (LOG ''Coalescing gates...'' P) of
        None \<Rightarrow> None
      | Some P1 \<Rightarrow>
     (let (stop1, P2) = check_root (LOG ''Gate coalescense is done!'' P1) in
      if stop1 then Some P2 else
     (case PhaseTwo A fuel P2 of
        None \<Rightarrow> None
      | Some P3 \<Rightarrow>
     (let (stop2, P4) = check_root P3 in
      if stop2 then Some P4 else
        map_option (LOG ''Gate coalescense is done!'')
          (run (coalesce_loop A True fuel) (LOG ''Coalescing gates...'' P4))))))"

text \<open>\<^verbatim>\<open>Preprocessor::ProcessFaultTree\<close>.\<close>

definition ProcessFaultTree :: "algorithms \<Rightarrow> nat \<Rightarrow> Preprocessor \<Rightarrow> Preprocessor option" where
  "ProcessFaultTree A fuel P =
     (case PhaseOne fuel (LOG ''Preprocessing Phase I...'' P) of
        None \<Rightarrow> None
      | Some P1 \<Rightarrow>
     (let (stop1, P2) = check_root (LOG ''Finished Preprocessing Phase I'' P1) in
      if stop1 then Some P2 else
     (case PhaseTwo A fuel (LOG ''Preprocessing Phase II...'' P2) of
        None \<Rightarrow> None
      | Some P3 \<Rightarrow>
     (let (stop2, P4) = check_root (LOG ''Finished Preprocessing Phase II'' P3) in
      if stop2 then Some P4 else
     (case (if \<not> normal P4
            then (case PhaseThree A fuel (LOG ''Preprocessing Phase III...'' P4) of
                    None \<Rightarrow> None
                  | Some P5 \<Rightarrow>
                      Some (check_root ((LOG ''Finished Preprocessing Phase III'' P5)\<lparr>normal := True\<rparr>)))
            else Some (False, P4)) of
        None \<Rightarrow> None
      | Some (stop3, P6) \<Rightarrow>
      if stop3 then Some P6 else
     (case (if \<not> coherent P6
            then (case PhaseFour A fuel (LOG ''Preprocessing Phase IV...'' P6) of
                    None \<Rightarrow> None
                  | Some P7 \<Rightarrow> Some (check_root (LOG ''Finished Preprocessing Phase IV'' P7)))
            else Some (False, P6)) of
        None \<Rightarrow> None
      | Some (stop4, P8) \<Rightarrow>
      if stop4 then Some P8 else
     (case PhaseFive A fuel (LOG ''Preprocessing Phase V...'' P8) of
        None \<Rightarrow> None
      | Some P9 \<Rightarrow> Some (snd (check_root (LOG ''Finished Preprocessing Phase V'' P9))))))))))"

section \<open>Notions used to state the properties of the phases\<close>

text \<open>The root gate has become constant: its state is not Normal.\<close>

definition collapsed :: "Preprocessor \<Rightarrow> bool" where
  "collapsed P = (state_of (mem (work P)) (graph_root (work P)) \<noteq> kNormalState)"

text \<open>The rest of \<^verbatim>\<open>ProcessFaultTree\<close> after the check of the root that follows Phase I,
  Phase II, the block of Phase III and the block of Phase IV; the proofs name them.\<close>

definition after_phase_four :: "algorithms \<Rightarrow> nat \<Rightarrow> Preprocessor \<Rightarrow> Preprocessor option" where
  "after_phase_four A fuel P8 =
     (case PhaseFive A fuel (LOG ''Preprocessing Phase V...'' P8) of
        None \<Rightarrow> None
      | Some P9 \<Rightarrow> Some (snd (check_root (LOG ''Finished Preprocessing Phase V'' P9))))"

definition after_phase_three :: "algorithms \<Rightarrow> nat \<Rightarrow> Preprocessor \<Rightarrow> Preprocessor option" where
  "after_phase_three A fuel P6 =
     (case (if \<not> coherent P6
            then (case PhaseFour A fuel (LOG ''Preprocessing Phase IV...'' P6) of
                    None \<Rightarrow> None
                  | Some P7 \<Rightarrow> Some (check_root (LOG ''Finished Preprocessing Phase IV'' P7)))
            else Some (False, P6)) of
        None \<Rightarrow> None
      | Some (stop4, P8) \<Rightarrow> if stop4 then Some P8 else after_phase_four A fuel P8)"

definition after_phase_two :: "algorithms \<Rightarrow> nat \<Rightarrow> Preprocessor \<Rightarrow> Preprocessor option" where
  "after_phase_two A fuel P4 =
     (case (if \<not> normal P4
            then (case PhaseThree A fuel (LOG ''Preprocessing Phase III...'' P4) of
                    None \<Rightarrow> None
                  | Some P5 \<Rightarrow>
                      Some (check_root ((LOG ''Finished Preprocessing Phase III'' P5)\<lparr>normal := True\<rparr>)))
            else Some (False, P4)) of
        None \<Rightarrow> None
      | Some (stop3, P6) \<Rightarrow> if stop3 then Some P6 else after_phase_three A fuel P6)"

definition after_phase_one :: "algorithms \<Rightarrow> nat \<Rightarrow> Preprocessor \<Rightarrow> Preprocessor option" where
  "after_phase_one A fuel P2 =
     (case PhaseTwo A fuel (LOG ''Preprocessing Phase II...'' P2) of
        None \<Rightarrow> None
      | Some P3 \<Rightarrow>
          (let (stop2, P4) = check_root (LOG ''Finished Preprocessing Phase II'' P3) in
           if stop2 then Some P4 else after_phase_two A fuel P4))"

subsection \<open>The truth value of a graph\<close>

fun gate_function :: "Operator \<Rightarrow> int \<Rightarrow> bool list \<Rightarrow> bool" where
  "gate_function kAndGate k bs = list_all id bs"
| "gate_function kOrGate k bs = list_ex id bs"
| "gate_function kNandGate k bs = (\<not> list_all id bs)"
| "gate_function kNorGate k bs = (\<not> list_ex id bs)"
| "gate_function kNotGate k bs = (\<not> list_all id bs)"
| "gate_function kNullGate k bs = list_all id bs"
| "gate_function kXorGate k bs = odd (length (filter id bs))"
| "gate_function kAtleastGate k bs = (k \<le> int (length (filter id bs)))"

text \<open>The value of the node a signed argument refers to, under an assignment \<open>v\<close> to
  the variables: a gate in Null state is false and a gate in Unity state is true
  (section 3); a gate in Normal state applies its operator to the values of its
  arguments; a constant has its value. The first argument bounds the depth.\<close>

fun node_value :: "nat \<Rightarrow> heap \<Rightarrow> (int \<Rightarrow> bool) \<Rightarrow> int \<Rightarrow> bool option" where
  "node_value 0 h v a = None"
| "node_value (Suc n) h v a =
     map_option (\<lambda>b. if a < 0 then \<not> b else b)
       (case gates h \<bar>a\<bar> of
          Some G \<Rightarrow>
            (case state G of
               kNullState \<Rightarrow> Some False
             | kUnityState \<Rightarrow> Some True
             | kNormalState \<Rightarrow>
                 map_option (gate_function (type G) (vote_number G))
                   (those (map (node_value n h v) (args G))))
        | None \<Rightarrow>
            (case constants h \<bar>a\<bar> of
               Some C \<Rightarrow> Some (const_state C)
             | None \<Rightarrow> Some (v \<bar>a\<bar>)))"

text \<open>The value of the graph: the value of its root, complemented when the root sign is
  negative.\<close>

definition graph_value :: "nat \<Rightarrow> work \<Rightarrow> (int \<Rightarrow> bool) \<Rightarrow> bool option" where
  "graph_value n w v =
     map_option (\<lambda>b. if root_sign w < 0 then \<not> b else b)
       (node_value n (mem w) v (graph_root w))"

subsection \<open>Examples\<close>

text \<open>A graph of one gate, the root, over variables; and its state at the start of the
  preprocessor, with the two flags of the graph.\<close>

definition start :: "heap \<Rightarrow> int \<Rightarrow> int list \<Rightarrow> bool \<Rightarrow> bool \<Rightarrow> Preprocessor" where
  "start h r cs c n =
     \<lparr>work = \<lparr>mem = h, graph_root = r, graph_constants = cs, graph_null_gates = [],
              root_sign = 1, const_gates = [], null_gates = []\<rparr>,
      coherent = c, normal = n, logger = []\<rparr>"

text \<open>ROOT = NOT(c) with \<open>c\<close> a constant of value false: the gate 2 over the constant 1.
  The graph is not coherent and not normal.\<close>

definition not_false :: Preprocessor where
  "not_false =
     start \<lparr>gates = [2 \<mapsto> \<lparr>parents = [], type = kNotGate, state = kNormalState,
                             vote_number = 0, mark = False, module = False, args = [1]\<rparr>],
            variables = Map.empty,
            constants = [1 \<mapsto> \<lparr>parents = [2], const_state = False\<rparr>],
            next_index = 3, held = [2]\<rparr>
       2 [1] False False"

text \<open>Steps that leave the graph as it is, and the same steps with a module detection
  that makes the root constant when a test on the working state holds.\<close>

definition no_rewriting :: algorithms where
  "no_rewriting =
     \<lparr>ProcessMultipleDefinitions = (\<lambda>w. Some (False, w)), DetectModules = Some,
      MergeCommonArgs = Some, BooleanOptimization = Some, DecomposeCommonNodes = Some,
      DetectDistributivity = Some, JoinGates = (\<lambda>common. Some)\<rparr>"

definition collapsing :: "(work \<Rightarrow> bool) \<Rightarrow> algorithms" where
  "collapsing c =
     no_rewriting\<lparr>DetectModules :=
       (\<lambda>w. if c w then Some (upd (Nullify (graph_root w)) w) else Some w)\<rparr>"

text \<open>More examples: ROOT = OR(x1, x2); ROOT = OR(\<not>x2, x1), not coherent; ROOT =
  XOR(x1, x2), not coherent and not normal.\<close>

definition or12 :: Preprocessor where
  "or12 = start (single_gate kOrGate 0 [1, 2]) 10 [] True True"

definition or1n2 :: Preprocessor where
  "or1n2 = start (single_gate kOrGate 0 [- 2, 1]) 10 [] False True"

definition xor12 :: Preprocessor where
  "xor12 = start (single_gate kXorGate 0 [1, 2]) 10 [] False False"

text \<open>ROOT = NOR(x1, NOT(x1)): the gate 11 over the variable 1 and the gate 10. The graph
  is false under every assignment, and neither coherent nor normal.\<close>

definition nor_x_notx :: Preprocessor where
  "nor_x_notx =
     start \<lparr>gates = [10 \<mapsto> \<lparr>parents = [11], type = kNotGate, state = kNormalState,
                              vote_number = 0, mark = False, module = False, args = [1]\<rparr>,
                      11 \<mapsto> \<lparr>parents = [], type = kNorGate, state = kNormalState,
                              vote_number = 0, mark = False, module = False, args = [1, 10]\<rparr>],
            variables = [1 \<mapsto> \<lparr>parents = [10, 11]\<rparr>],
            constants = Map.empty,
            next_index = 12, held = [11]\<rparr>
       11 [] False False"

text \<open>ROOT = AND(\<not>G, x3) with G = OR(x1, x2): normal, not coherent.\<close>

definition and_n_or :: Preprocessor where
  "and_n_or =
     start \<lparr>gates = [10 \<mapsto> \<lparr>parents = [11], type = kOrGate, state = kNormalState,
                              vote_number = 0, mark = False, module = False, args = [1, 2]\<rparr>,
                      11 \<mapsto> \<lparr>parents = [], type = kAndGate, state = kNormalState,
                              vote_number = 0, mark = False, module = False, args = [- 10, 3]\<rparr>],
            variables = [1 \<mapsto> \<lparr>parents = [10]\<rparr>, 2 \<mapsto> \<lparr>parents = [10]\<rparr>,
                         3 \<mapsto> \<lparr>parents = [11]\<rparr>],
            constants = Map.empty,
            next_index = 12, held = [11]\<rparr>
       11 [] False True"

text \<open>Two tests on the working state, for \<open>collapsing\<close>: the root is an OR gate (as it is
  once an XOR root has been normalized), and the gate 10 is an AND gate (as it is in
  \<open>and_n_or\<close> once the complement has been propagated into it).\<close>

definition root_is_or :: "work \<Rightarrow> bool" where
  "root_is_or w = (type_of (mem w) (graph_root w) = kOrGate)"

definition gate_10_is_and :: "work \<Rightarrow> bool" where
  "gate_10_is_and w = (type_of (mem w) 10 = kAndGate)"

section \<open>How the member functions act on the fields of a gate\<close>

lemma set_insert_set [simp]: "set (set_insert a xs) = insert a (set xs)"
  by (auto simp: set_insert_def set_insort_key)

lemma set_erase_set [simp]: "set (set_erase a xs) = set xs - {a}"
  by (auto simp: set_erase_def)

lemma heap_upd_proj [simp]:
  "args_of (h\<lparr>gates := (gates h)(g' \<mapsto> G)\<rparr>) g = (if g = g' then args G else args_of h g)"
  "state_of (h\<lparr>gates := (gates h)(g' \<mapsto> G)\<rparr>) g = (if g = g' then state G else state_of h g)"
  "type_of (h\<lparr>gates := (gates h)(g' \<mapsto> G)\<rparr>) g = (if g = g' then type G else type_of h g)"
  "vote_number_of (h\<lparr>gates := (gates h)(g' \<mapsto> G)\<rparr>) g =
     (if g = g' then vote_number G else vote_number_of h g)"
  "is_gate (h\<lparr>gates := (gates h)(g' \<mapsto> G)\<rparr>) g = (g = g' \<or> is_gate h g)"
  by (auto simp: args_of_def state_of_def type_of_def vote_number_of_def is_gate_def)

lemma proj_Some:
  "gates h g = Some G \<Longrightarrow> args_of h g = args G"
  "gates h g = Some G \<Longrightarrow> state_of h g = state G"
  "gates h g = Some G \<Longrightarrow> type_of h g = type G"
  "gates h g = Some G \<Longrightarrow> vote_number_of h g = vote_number G"
  "gates h g = Some G \<Longrightarrow> is_gate h g"
  by (auto simp: args_of_def state_of_def type_of_def vote_number_of_def is_gate_def)

lemma proj_None:
  "gates h g = None \<Longrightarrow> args_of h g = []"
  "gates h g = None \<Longrightarrow> \<not> is_gate h g"
  by (auto simp: args_of_def is_gate_def)

lemma insert_parent_proj [simp]:
  "type_of (insert_parent c p h) g = type_of h g"
  "state_of (insert_parent c p h) g = state_of h g"
  "args_of (insert_parent c p h) g = args_of h g"
  "vote_number_of (insert_parent c p h) g = vote_number_of h g"
  "is_gate (insert_parent c p h) g = is_gate h g"
  "next_index (insert_parent c p h) = next_index h"
  by (auto simp: insert_parent_def type_of_def state_of_def args_of_def vote_number_of_def
      is_gate_def split: option.splits)

lemma erase_parent_proj [simp]:
  "type_of (erase_parent c p h) g = type_of h g"
  "state_of (erase_parent c p h) g = state_of h g"
  "args_of (erase_parent c p h) g = args_of h g"
  "vote_number_of (erase_parent c p h) g = vote_number_of h g"
  "is_gate (erase_parent c p h) g = is_gate h g"
  "next_index (erase_parent c p h) = next_index h"
  by (auto simp: erase_parent_def type_of_def state_of_def args_of_def vote_number_of_def
      is_gate_def split: option.splits)

lemma EraseArg_proj [simp]:
  "type_of (EraseArg g' arg h) g = type_of h g"
  "state_of (EraseArg g' arg h) g = state_of h g"
  "vote_number_of (EraseArg g' arg h) g = vote_number_of h g"
  "is_gate (EraseArg g' arg h) g = is_gate h g"
  "next_index (EraseArg g' arg h) = next_index h"
  by (cases "gates h g'"; auto simp: EraseArg_def proj_Some; auto simp: proj_Some)+

lemma EraseArg_args:
  "args_of (EraseArg g' arg h) g = (if g = g' then removeAll arg (args_of h g) else args_of h g)"
  by (cases "gates h g'") (auto simp: EraseArg_def proj_Some proj_None set_erase_def)

lemma fold_EraseArg_proj [simp]:
  "type_of (fold (EraseArg g') xs h) g = type_of h g"
  "state_of (fold (EraseArg g') xs h) g = state_of h g"
  "vote_number_of (fold (EraseArg g') xs h) g = vote_number_of h g"
  "is_gate (fold (EraseArg g') xs h) g = is_gate h g"
  "next_index (fold (EraseArg g') xs h) = next_index h"
  by (induction xs arbitrary: h) auto

lemma fold_EraseArg_args:
  "args_of (fold (EraseArg g') xs h) g =
     (if g = g' then filter (\<lambda>a. a \<notin> set xs) (args_of h g) else args_of h g)"
  by (induction xs arbitrary: h)
     (auto simp: EraseArg_args removeAll_filter_not_eq intro: filter_cong)

lemma EraseAllArgs_proj [simp]:
  "type_of (EraseAllArgs g' h) g = type_of h g"
  "state_of (EraseAllArgs g' h) g = state_of h g"
  "vote_number_of (EraseAllArgs g' h) g = vote_number_of h g"
  "is_gate (EraseAllArgs g' h) g = is_gate h g"
  "next_index (EraseAllArgs g' h) = next_index h"
  by (auto simp: EraseAllArgs_def split: option.splits)

lemma EraseAllArgs_args:
  "args_of (EraseAllArgs g' h) g = (if g = g' then [] else args_of h g)"
  by (cases "gates h g'") (auto simp: EraseAllArgs_def fold_EraseArg_args proj_Some proj_None)

lemma set_state_proj [simp]:
  "type_of (set_state g' st h) g = type_of h g"
  "vote_number_of (set_state g' st h) g = vote_number_of h g"
  "args_of (set_state g' st h) g = args_of h g"
  "is_gate (set_state g' st h) g = is_gate h g"
  "next_index (set_state g' st h) = next_index h"
  by (cases "gates h g'"; auto simp: set_state_def proj_Some)+

lemma set_state_state:
  "state_of (set_state g' st h) g = (if g = g' \<and> is_gate h g then st else state_of h g)"
  by (cases "gates h g'") (auto simp: set_state_def proj_Some proj_None)

lemma set_type_proj [simp]:
  "state_of (set_type g' t h) g = state_of h g"
  "vote_number_of (set_type g' t h) g = vote_number_of h g"
  "args_of (set_type g' t h) g = args_of h g"
  "is_gate (set_type g' t h) g = is_gate h g"
  "next_index (set_type g' t h) = next_index h"
  by (cases "gates h g'"; auto simp: set_type_def proj_Some)+

lemma set_type_type:
  "type_of (set_type g' t h) g = (if g = g' \<and> is_gate h g then t else type_of h g)"
  by (cases "gates h g'") (auto simp: set_type_def proj_Some proj_None)

lemma set_vote_number_proj [simp]:
  "state_of (set_vote_number g' k h) g = state_of h g"
  "type_of (set_vote_number g' k h) g = type_of h g"
  "args_of (set_vote_number g' k h) g = args_of h g"
  "is_gate (set_vote_number g' k h) g = is_gate h g"
  "next_index (set_vote_number g' k h) = next_index h"
  by (cases "gates h g'"; auto simp: set_vote_number_def proj_Some)+

lemma set_vote_number_vote:
  "vote_number_of (set_vote_number g' k h) g =
     (if g = g' \<and> is_gate h g then k else vote_number_of h g)"
  by (cases "gates h g'") (auto simp: set_vote_number_def proj_Some proj_None)

lemma set_mark_proj [simp]:
  "type_of (set_mark g' b h) g = type_of h g"
  "state_of (set_mark g' b h) g = state_of h g"
  "args_of (set_mark g' b h) g = args_of h g"
  "vote_number_of (set_mark g' b h) g = vote_number_of h g"
  "is_gate (set_mark g' b h) g = is_gate h g"
  "next_index (set_mark g' b h) = next_index h"
  by (cases "gates h g'"; auto simp: set_mark_def proj_Some)+

lemma MakeUnity_proj [simp]:
  "type_of (MakeUnity g' h) g = type_of h g"
  "vote_number_of (MakeUnity g' h) g = vote_number_of h g"
  "is_gate (MakeUnity g' h) g = is_gate h g"
  "next_index (MakeUnity g' h) = next_index h"
  by (auto simp: MakeUnity_def)

lemma Nullify_proj [simp]:
  "type_of (Nullify g' h) g = type_of h g"
  "vote_number_of (Nullify g' h) g = vote_number_of h g"
  "is_gate (Nullify g' h) g = is_gate h g"
  "next_index (Nullify g' h) = next_index h"
  by (auto simp: Nullify_def)

lemma Nullify_state: "is_gate h g \<Longrightarrow> state_of (Nullify g h) g = kNullState"
  by (simp add: Nullify_def set_state_state)

lemma MakeUnity_state: "is_gate h g \<Longrightarrow> state_of (MakeUnity g h) g = kUnityState"
  by (simp add: MakeUnity_def set_state_state)

lemma AddArg_proj [simp]:
  "type_of (AddArg g' a h) g = type_of h g"
  "vote_number_of (AddArg g' a h) g = vote_number_of h g"
  "is_gate (AddArg g' a h) g = is_gate h g"
  "next_index (AddArg g' a h) = next_index h"
  by (cases "gates h g'"; auto simp: AddArg_def proj_Some split: Operator.splits)+



lemma ShareArg_proj [simp]:
  "type_of (ShareArg g' a r h) g = type_of h g"
  "vote_number_of (ShareArg g' a r h) g = vote_number_of h g"
  "is_gate (ShareArg g' a r h) g = is_gate h g"
  "next_index (ShareArg g' a r h) = next_index h"
  by (auto simp: ShareArg_def)

lemma InvertArg_proj [simp]:
  "type_of (InvertArg g' a h) g = type_of h g"
  "state_of (InvertArg g' a h) g = state_of h g"
  "vote_number_of (InvertArg g' a h) g = vote_number_of h g"
  "is_gate (InvertArg g' a h) g = is_gate h g"
  "next_index (InvertArg g' a h) = next_index h"
  by (cases "gates h g'"; auto simp: InvertArg_def proj_Some)+


lemma new_IGate_proj:
  "type_of (snd (new_IGate t h)) g = (if g = next_index h then t else type_of h g)"
  "state_of (snd (new_IGate t h)) g = (if g = next_index h then kNormalState else state_of h g)"
  "args_of (snd (new_IGate t h)) g = (if g = next_index h then [] else args_of h g)"
  "vote_number_of (snd (new_IGate t h)) g = (if g = next_index h then 0 else vote_number_of h g)"
  "is_gate (snd (new_IGate t h)) g = (g = next_index h \<or> is_gate h g)"
  "next_index (snd (new_IGate t h)) = next_index h + 1"
  "fst (new_IGate t h) = next_index h"
  by (auto simp: new_IGate_def type_of_def state_of_def args_of_def vote_number_of_def
      is_gate_def)

lemma RemoveConstantArg_proj:
  "state_of (RemoveConstantArg g' arg h) g = state_of h g"
  "args_of (RemoveConstantArg g' arg h) g =
     (if g = g' then removeAll arg (args_of h g) else args_of h g)"
  "is_gate (RemoveConstantArg g' arg h) g = is_gate h g"
  "vote_number_of (RemoveConstantArg g' arg h) g = vote_number_of h g"
  by (auto simp: RemoveConstantArg_def Let_def EraseArg_args split: Operator.splits)




lemma share_loop_proj [simp]:
  "type_of (fold (\<lambda>a. ShareArg g a r2 \<circ> ShareArg g a r1) ys h) i = type_of h i"
  "vote_number_of (fold (\<lambda>a. ShareArg g a r2 \<circ> ShareArg g a r1) ys h) i = vote_number_of h i"
  "is_gate (fold (\<lambda>a. ShareArg g a r2 \<circ> ShareArg g a r1) ys h) i = is_gate h i"
  "next_index (fold (\<lambda>a. ShareArg g a r2 \<circ> ShareArg g a r1) ys h) = next_index h"
  by (induction ys arbitrary: h) auto










section \<open>Ownership: what \<open>collect\<close> keeps\<close>

lemma held_proj [simp]:
  "held (insert_parent c p h) = held h"
  "held (erase_parent c p h) = held h"
  "held (EraseArg g a h) = held h"
  "held (set_state g st h) = held h"
  "held (set_type g t h) = held h"
  "held (set_vote_number g k h) = held h"
  "held (set_mark g b h) = held h"
  "held (InvertArg g a h) = held h"
  "held (snd (new_IGate t h)) = held h"
  by (auto simp: insert_parent_def erase_parent_def EraseArg_def set_state_def set_type_def
      set_vote_number_def set_mark_def InvertArg_def new_IGate_def split: option.splits)

lemma held_fold_EraseArg [simp]: "held (fold (EraseArg g) xs h) = held h"
  by (induction xs arbitrary: h) auto

lemma held_EraseAllArgs [simp]: "held (EraseAllArgs g h) = held h"
  by (auto simp: EraseAllArgs_def split: option.splits)

lemma held_collapse [simp]:
  "held (MakeUnity g h) = held h" "held (Nullify g h) = held h"
  by (simp_all add: MakeUnity_def Nullify_def)

lemma held_AddArg [simp]: "held (AddArg g a h) = held h"
  by (auto simp: AddArg_def split: option.splits Operator.splits)

lemma held_ShareArg [simp]: "held (ShareArg g a r h) = held h"
  by (simp add: ShareArg_def)

lemma gate_view_gates_None:
  "i \<noteq> g \<Longrightarrow> gate_view (h\<lparr>gates := (gates h)(g := None)\<rparr>) i = gate_view h i"
  by (simp add: gate_view_def is_gate_def type_of_def state_of_def vote_number_of_def args_of_def)

lemma gate_view_constants [simp]:
  "gate_view (h\<lparr>constants := c\<rparr>) i = gate_view h i"
  by (simp add: gate_view_def is_gate_def type_of_def state_of_def vote_number_of_def args_of_def)

lemma reclaim_held [simp]:
  "held (reclaim n ws h) = held h"
  by (induction n ws h rule: reclaim.induct) (auto split: option.splits)

lemma reclaim_next_index [simp]:
  "next_index (reclaim n ws h) = next_index h"
  by (induction n ws h rule: reclaim.induct) (auto split: option.splits)

lemma reclaim_keeps_held:
  "i \<in> set (held h) \<Longrightarrow> gate_view (reclaim n ws h) i = gate_view h i"
proof (induction n ws h rule: reclaim.induct)
  case (3 n g ws h)
  show ?case
  proof (cases "g \<in> set (held h) \<or> parents_of h g \<noteq> []")
    case True
    with 3 show ?thesis by simp
  next
    case False
    then have ne: "i \<noteq> g" using "3.prems" by auto
    show ?thesis
    proof (cases "gates h g")
      case None
      with False 3 show ?thesis by (auto split: option.splits)
    next
      case (Some G)
      let ?h = "(EraseAllArgs g h)\<lparr>gates := (gates (EraseAllArgs g h))(g := None)\<rparr>"
      have "gate_view (reclaim n (map abs (args G) @ ws) ?h) i = gate_view ?h i"
        using "3.IH" False Some "3.prems" by simp
      also have "\<dots> = gate_view h i"
        using ne by (simp add: gate_view_gates_None) (simp add: gate_view_def EraseAllArgs_args)
      finally show ?thesis using False Some by simp
    qed
  qed
qed simp_all

lemma collect_held [simp]: "held (collect h) = held h" "next_index (collect h) = next_index h"
  by (simp_all add: collect_def)

lemma collect_keeps_held:
  "i \<in> set (held h) \<Longrightarrow> gate_view (collect h) i = gate_view h i"
  by (simp add: collect_def reclaim_keeps_held)

lemma CheckRootGate_negative:
  assumes "state_of (mem w) (graph_root w) \<noteq> kNormalState" "root_sign w < 0"
    and "graph_root w \<noteq> next_index (mem w)"
  shows "fst (CheckRootGate w) \<and>
         graph_root (snd (CheckRootGate w)) = next_index (mem w) \<and>
         root_sign (snd (CheckRootGate w)) = 1 \<and>
         gate_view (mem (snd (CheckRootGate w))) (next_index (mem w))
           = (True, kNullGate,
              if state_of (mem w) (graph_root w) = kNullState then kUnityState else kNullState,
              0, [])"
proof -
  let ?n = "next_index (mem w)"
  let ?h1 = "snd (new_IGate kNullGate (mem w))"
  let ?Y = "unhold (graph_root w) (hold ?n ?h1)"
  have hn: "?n \<in> set (held ?Y)" using assms(3) by (simp add: unhold_def hold_def)
  have vY: "gate_view ?Y ?n = (True, kNullGate, kNormalState, 0, [])"
    by (simp add: gate_view_def unhold_def hold_def new_IGate_def is_gate_def type_of_def
        state_of_def vote_number_of_def args_of_def)
  have vC: "gate_view (collect ?Y) ?n = (True, kNullGate, kNormalState, 0, [])"
    using collect_keeps_held[OF hn] vY by simp
  have hC: "?n \<in> set (held (collect ?Y))" using hn by simp
  have g: "is_gate (collect ?Y) ?n" using vC by (simp add: gate_view_def)
  have vU: "gate_view (collect (MakeUnity ?n (collect ?Y))) ?n = (True, kNullGate, kUnityState, 0, [])"
    using collect_keeps_held[of ?n "MakeUnity ?n (collect ?Y)"] hC vC g
    by (simp add: gate_view_def MakeUnity_state) (simp add: MakeUnity_def EraseAllArgs_args)
  have vN: "gate_view (collect (Nullify ?n (collect ?Y))) ?n = (True, kNullGate, kNullState, 0, [])"
    using collect_keeps_held[of ?n "Nullify ?n (collect ?Y)"] hC vC g
    by (simp add: gate_view_def Nullify_state) (simp add: Nullify_def EraseAllArgs_args)
  show ?thesis
    using assms(1,2) vU vN
    by (simp add: CheckRootGate_def Let_def split_beta set_root_def upd_def new_IGate_proj)
qed

section \<open>The phases: flags, log and early exit\<close>

lemma LOG_simps [simp]:
  "work (LOG m P) = work P" "coherent (LOG m P) = coherent P" "normal (LOG m P) = normal P"
  "logger (LOG m P) = logger P @ [m]"
  by (simp_all add: LOG_def)

lemma run_Some:
  "run f P = Some P' \<Longrightarrow>
     coherent P' = coherent P \<and> normal P' = normal P \<and> logger P' = logger P \<and>
     f (work P) = Some (work P')"
  by (auto simp: run_def)

lemma check_root_simps [simp]:
  "coherent (snd (check_root P)) = coherent P" "normal (snd (check_root P)) = normal P"
  "logger (snd (check_root P)) = logger P"
  "work (snd (check_root P)) = snd (CheckRootGate (work P))"
  "fst (check_root P) = fst (CheckRootGate (work P))"
  by (simp_all add: check_root_def)

lemma check_root_eq:
  "check_root P = (b, P') \<Longrightarrow>
     coherent P' = coherent P \<and> normal P' = normal P \<and> logger P' = logger P"
  by (auto simp: check_root_def)

lemma collapsed_LOG [simp]: "collapsed (LOG m P) = collapsed P"
  by (simp add: collapsed_def)

lemma collapsed_normal_update [simp]: "collapsed (P\<lparr>normal := b\<rparr>) = collapsed P"
  by (simp add: collapsed_def)

lemma collapsed_stop: "collapsed P \<Longrightarrow> fst (check_root P)"
  by (auto simp: collapsed_def check_root_def CheckRootGate_def Let_def split_beta)

lemma collapsed_check_root: "collapsed P \<Longrightarrow> check_root P = (True, snd (check_root P))"
  using collapsed_stop[of P] by (cases "check_root P") auto

lemma collapsed_keeps:
  "collapsed P \<Longrightarrow> 0 \<le> root_sign (work P) \<Longrightarrow> snd (check_root P) = P"
  by (auto simp: collapsed_def check_root_def CheckRootGate_def Let_def)


lemma multiple_definitions_loop_indep [simp]:
  "multiple_definitions_loop (A\<lparr>BooleanOptimization := f\<rparr>) fuel w = multiple_definitions_loop A fuel w"
  by (induction fuel arbitrary: w) (auto split: option.splits)

lemma coalesce_loop_indep [simp]:
  "coalesce_loop (A\<lparr>BooleanOptimization := f\<rparr>) common fuel w = coalesce_loop A common fuel w"
  by (induction fuel arbitrary: w) (auto simp: Let_def split: option.splits)

lemma PhaseTwo_indep:
  "\<not> coherent P \<Longrightarrow> PhaseTwo (A\<lparr>BooleanOptimization := f\<rparr>) fuel P = PhaseTwo A fuel P"
  by (simp add: PhaseTwo_def run_def check_root_def LOG_def Let_def split_beta
      option.case_eq_if option.map_sel cong: if_cong)

lemma PhaseOne_flags:
  "PhaseOne fuel P = Some P' \<Longrightarrow> coherent P' = coherent P \<and> normal P' = normal P"
  by (auto simp: PhaseOne_def run_def LOG_def split: option.splits if_splits)

lemma bindE:
  assumes "(case x of None \<Rightarrow> None | Some y \<Rightarrow> g y) = Some r"
  obtains y where "x = Some y" "g y = Some r"
  using assms by (cases x) auto

lemma chkE:
  assumes "(let (stop, P2) = check_root Q in if stop then Some P2 else k P2) = Some r"
  obtains "fst (check_root Q)" "r = snd (check_root Q)"
    | "\<not> fst (check_root Q)" "k (snd (check_root Q)) = Some r"
  using assms by (auto simp: Let_def split_beta split: if_splits)

lemma run_flags:
  "run f P = Some P' \<Longrightarrow> coherent P' = coherent P \<and> normal P' = normal P"
  by (auto simp: run_def)

lemma map_run_flags:
  "map_option (LOG m) (run f P) = Some P' \<Longrightarrow> coherent P' = coherent P \<and> normal P' = normal P"
  by (auto simp: run_def)

lemma if_run_flags:
  "(if c then map_option (LOG m) (run f (LOG m1 Q)) else Some Q) = Some P' \<Longrightarrow>
     coherent P' = coherent Q \<and> normal P' = normal Q"
  by (auto simp: run_def split: if_splits)

lemma PhaseTwo_flags:
  "PhaseTwo A fuel P = Some P' \<Longrightarrow> coherent P' = coherent P \<and> normal P' = normal P"
  unfolding PhaseTwo_def
  by (elim bindE chkE; ((drule run_flags map_run_flags if_run_flags)+; simp))

lemma PhaseThree_indep:
  "\<not> coherent P \<Longrightarrow> PhaseThree (A\<lparr>BooleanOptimization := f\<rparr>) fuel P = PhaseThree A fuel P"
  by (simp add: PhaseThree_def run_def check_root_def LOG_def Let_def split_beta
      option.case_eq_if option.map_sel PhaseTwo_indep cong: if_cong)

lemma PhaseFour_indep:
  "\<not> coherent P \<Longrightarrow> PhaseFour (A\<lparr>BooleanOptimization := f\<rparr>) fuel P = PhaseFour A fuel P"
  by (simp add: PhaseFour_def run_def check_root_def LOG_def Let_def split_beta
      option.case_eq_if option.map_sel PhaseTwo_indep cong: if_cong)

lemma PhaseFive_indep:
  "\<not> coherent P \<Longrightarrow> PhaseFive (A\<lparr>BooleanOptimization := f\<rparr>) fuel P = PhaseFive A fuel P"
  by (simp add: PhaseFive_def run_def check_root_def LOG_def Let_def split_beta
      option.case_eq_if option.map_sel PhaseTwo_indep cong: if_cong)

lemma PhaseThree_flags:
  "PhaseThree A fuel P = Some P' \<Longrightarrow> coherent P' = coherent P \<and> normal P' = normal P"
  unfolding PhaseThree_def
  by (elim bindE chkE; ((drule run_flags PhaseTwo_flags)+; simp))

lemma PhaseFour_flags:
  "PhaseFour A fuel P = Some P' \<Longrightarrow> coherent P' = coherent P \<and> normal P' = normal P"
  unfolding PhaseFour_def Let_def
  by (elim bindE) (auto simp: split_beta split: if_splits dest!: PhaseTwo_flags)

lemma ProcessFaultTree_unfold:
  "ProcessFaultTree A fuel P =
     (case PhaseOne fuel (LOG ''Preprocessing Phase I...'' P) of
        None \<Rightarrow> None
      | Some P1 \<Rightarrow>
          (let (stop1, P2) = check_root (LOG ''Finished Preprocessing Phase I'' P1) in
           if stop1 then Some P2 else after_phase_one A fuel P2))"
  unfolding ProcessFaultTree_def after_phase_one_def after_phase_two_def after_phase_three_def
    after_phase_four_def ..

lemma after_phase_four_indep:
  "\<not> coherent P \<Longrightarrow>
   after_phase_four (A\<lparr>BooleanOptimization := f\<rparr>) fuel P = after_phase_four A fuel P"
  by (simp add: after_phase_four_def PhaseFive_indep)

lemma after_phase_three_indep:
  "\<not> coherent P \<Longrightarrow>
   after_phase_three (A\<lparr>BooleanOptimization := f\<rparr>) fuel P = after_phase_three A fuel P"
  by (auto simp: after_phase_three_def PhaseFour_indep after_phase_four_indep check_root_def
      split: option.splits dest!: PhaseFour_flags)

lemma after_phase_two_indep:
  "\<not> coherent P \<Longrightarrow>
   after_phase_two (A\<lparr>BooleanOptimization := f\<rparr>) fuel P = after_phase_two A fuel P"
  by (auto simp: after_phase_two_def PhaseThree_indep after_phase_three_indep check_root_def
      split: option.splits dest!: PhaseThree_flags)

lemma after_phase_one_indep:
  "\<not> coherent P \<Longrightarrow>
   after_phase_one (A\<lparr>BooleanOptimization := f\<rparr>) fuel P = after_phase_one A fuel P"
  by (auto simp: after_phase_one_def PhaseTwo_indep after_phase_two_indep check_root_def
      Let_def split: option.splits dest!: PhaseTwo_flags)

lemma ProcessFaultTree_indep:
  "\<not> coherent P \<Longrightarrow>
   ProcessFaultTree (A\<lparr>BooleanOptimization := f\<rparr>) fuel P = ProcessFaultTree A fuel P"
  by (auto simp: ProcessFaultTree_unfold after_phase_one_indep check_root_def Let_def
      split: option.splits dest!: PhaseOne_flags)

lemma run_facts:
  "run f P = Some P' \<Longrightarrow>
     coherent P' = coherent P \<and> normal P' = normal P \<and> logger P' = logger P"
  by (auto simp: run_def)

lemma map_run_facts:
  "map_option (LOG m) (run f P) = Some P' \<Longrightarrow>
     coherent P' = coherent P \<and> normal P' = normal P \<and> logger P' = logger P @ [m]"
  by (auto simp: run_def)

lemma if_run_facts:
  "(if c then map_option (LOG m) (run f (LOG m1 Q)) else Some Q) = Some P' \<Longrightarrow>
     coherent P' = coherent Q \<and> normal P' = normal Q \<and>
     logger P' = (if c then logger Q @ [m1, m] else logger Q)"
  by (auto simp: run_def split: if_splits)

lemma PhaseTwo_log:
  "PhaseTwo A fuel P = Some P' \<Longrightarrow> \<not> coherent P \<Longrightarrow>
     \<exists>l. logger P' = logger P @ l \<and> ''Boolean optimization...'' \<notin> set l"
  unfolding PhaseTwo_def
  by (elim bindE chkE; ((drule run_facts map_run_facts if_run_facts)+; simp))

lemma collapsed_replaces:
  assumes "collapsed Q" "root_sign (work Q) < 0"
    "graph_root (work Q) \<noteq> next_index (mem (work Q))"
  shows "graph_root (work (snd (check_root Q))) = next_index (mem (work Q)) \<and>
         root_sign (work (snd (check_root Q))) = 1 \<and>
         gate_view (mem (work (snd (check_root Q)))) (next_index (mem (work Q)))
           = (True, kNullGate,
              if state_of (mem (work Q)) (graph_root (work Q)) = kNullState
              then kUnityState else kNullState, 0, [])"
  using CheckRootGate_negative[of "work Q"] assms by (simp add: collapsed_def)

lemma is_none_the: "\<not> Option.is_none x \<Longrightarrow> x = Some (the x)"
  by (simp add: Option.is_none_def)

lemma not_fst_snd: "\<not> fst p \<Longrightarrow> p = (False, snd p)"
  by (simp add: prod_eq_iff)

section \<open>The claims\<close>

lemma single_gate_view [simp]:
  "is_gate (single_gate t k as) i = (i = 10)"
  "type_of (single_gate t k as) 10 = t"
  "state_of (single_gate t k as) 10 = kNormalState"
  "vote_number_of (single_gate t k as) 10 = k"
  "args_of (single_gate t k as) 10 = as"
  "next_index (single_gate t k as) = 11"
  by (auto simp: single_gate_def is_gate_def type_of_def state_of_def vote_number_of_def
      args_of_def)

subsection \<open>C2: absorption of a FALSE argument\<close>

text \<open>C2, as claimed: a FALSE argument makes a NAND parent collapse to the Null state.
  It does not: \<^verbatim>\<open>ProcessFalseArg\<close> sends \<^verbatim>\<open>kNandGate\<close> to \<^verbatim>\<open>MakeUnity\<close>, so the gate
  NAND(x1, x2) with x1 false ends in the Unity state.\<close>

theorem C2_nand_counterexample:
  "type_of (single_gate kNandGate 0 [1, 2]) 10 = kNandGate \<and>
   state_of (ProcessFalseArg 10 1 (single_gate kNandGate 0 [1, 2])) 10 = kUnityState \<and>
   state_of (ProcessFalseArg 10 1 (single_gate kNandGate 0 [1, 2])) 10 \<noteq> kNullState"
  by (simp add: ProcessFalseArg_def MakeUnity_state)

text \<open>C2, amended: absorption of a FALSE argument (after sign adjustment) behaves per
  parent kind as follows. A NOR, XOR or OR parent removes the argument and keeps its
  state; a NULL or AND parent collapses to the Null state; a NAND or NOT parent
  collapses to the Unity state.\<close>

theorem ProcessFalseArg_table:
  assumes "is_gate h g"
  shows "(type_of h g \<in> {kNorGate, kXorGate, kOrGate} \<longrightarrow>
            ProcessFalseArg g arg h = RemoveConstantArg g arg h \<and>
            state_of (ProcessFalseArg g arg h) g = state_of h g \<and>
            args_of (ProcessFalseArg g arg h) g = removeAll arg (args_of h g))
       \<and> (type_of h g \<in> {kNullGate, kAndGate} \<longrightarrow>
            state_of (ProcessFalseArg g arg h) g = kNullState)
       \<and> (type_of h g \<in> {kNandGate, kNotGate} \<longrightarrow>
            state_of (ProcessFalseArg g arg h) g = kUnityState)"
  using assms
  by (auto simp: ProcessFalseArg_def RemoveConstantArg_proj Nullify_state MakeUnity_state)

theorem ProcessFalseArg_table_witness:
  "is_gate (single_gate kNorGate 0 [1, 2, 3]) 10 \<and>
   type_of (single_gate kNorGate 0 [1, 2, 3]) 10 \<in> {kNorGate, kXorGate, kOrGate} \<and>
   state_of (ProcessFalseArg 10 2 (single_gate kNorGate 0 [1, 2, 3])) 10 = kNormalState \<and>
   args_of (ProcessFalseArg 10 2 (single_gate kNorGate 0 [1, 2, 3])) 10 = [1, 3] \<and>
   is_gate (single_gate kNullGate 0 [1]) 10 \<and>
   type_of (single_gate kNullGate 0 [1]) 10 \<in> {kNullGate, kAndGate} \<and>
   state_of (ProcessFalseArg 10 1 (single_gate kNullGate 0 [1])) 10 = kNullState \<and>
   is_gate (single_gate kNandGate 0 [1, 2]) 10 \<and>
   type_of (single_gate kNandGate 0 [1, 2]) 10 \<in> {kNandGate, kNotGate} \<and>
   state_of (ProcessFalseArg 10 1 (single_gate kNandGate 0 [1, 2])) 10 = kUnityState"
  using ProcessFalseArg_table [of "single_gate kNorGate 0 [1, 2, 3]" 10 2]
    ProcessFalseArg_table [of "single_gate kNullGate 0 [1]" 10 1]
    ProcessFalseArg_table [of "single_gate kNandGate 0 [1, 2]" 10 1]
  by (simp add: RemoveConstantArg_proj)

subsection \<open>C4: a constant argument of an ATLEAST gate\<close>

text \<open>C4: on an ATLEAST gate \<^verbatim>\<open>ProcessConstantArg\<close> does what the ATLEAST row of the table
  says and nothing else. With \<open>v\<close> the value of the argument after the sign is applied,
  the kind, vote number and arguments of the gate become those of \<open>atleast_row\<close>: the
  argument is erased; for a TRUE argument the vote number drops by one and the kind
  becomes OR when it reaches 1; for a FALSE argument the vote number stays and the kind
  becomes AND when it equals the number of remaining arguments. The state of the gate is
  not touched (no other case of the switch collapses it), and no other gate changes.\<close>

theorem ProcessConstantArg_atleast:
  assumes "is_gate h g" and "type_of h g = kAtleastGate"
  shows "(type_of (ProcessConstantArg g arg st h) g,
          vote_number_of (ProcessConstantArg g arg st h) g,
          args_of (ProcessConstantArg g arg st h) g)
         = atleast_row (if arg < 0 then \<not> st else st) arg
             (kAtleastGate, vote_number_of h g, args_of h g)
       \<and> state_of (ProcessConstantArg g arg st h) g = state_of h g
       \<and> (\<forall>i. i \<noteq> g \<longrightarrow> gate_view (ProcessConstantArg g arg st h) i = gate_view h i)"
  using assms
  by (auto simp: ProcessConstantArg_def ProcessTrueArg_def ProcessFalseArg_def atleast_row_def
      Let_def gate_view_def EraseArg_args set_type_type set_vote_number_vote)

theorem ProcessConstantArg_atleast_witness:
  "is_gate (single_gate kAtleastGate 2 [1, 2, 3]) 10 \<and>
   type_of (single_gate kAtleastGate 2 [1, 2, 3]) 10 = kAtleastGate \<and>
   (type_of (ProcessConstantArg 10 1 True (single_gate kAtleastGate 2 [1, 2, 3])) 10,
    vote_number_of (ProcessConstantArg 10 1 True (single_gate kAtleastGate 2 [1, 2, 3])) 10,
    args_of (ProcessConstantArg 10 1 True (single_gate kAtleastGate 2 [1, 2, 3])) 10)
     = (kOrGate, 1, [2, 3]) \<and>
   (type_of (ProcessConstantArg 10 1 False (single_gate kAtleastGate 2 [1, 2, 3])) 10,
    vote_number_of (ProcessConstantArg 10 1 False (single_gate kAtleastGate 2 [1, 2, 3])) 10,
    args_of (ProcessConstantArg 10 1 False (single_gate kAtleastGate 2 [1, 2, 3])) 10)
     = (kAndGate, 2, [2, 3]) \<and>
   state_of (ProcessConstantArg 10 1 True (single_gate kAtleastGate 2 [1, 2, 3])) 10
     = kNormalState"
  using ProcessConstantArg_atleast [of "single_gate kAtleastGate 2 [1, 2, 3]" 10 1 True]
    ProcessConstantArg_atleast [of "single_gate kAtleastGate 2 [1, 2, 3]" 10 1 False]
  by (simp add: atleast_row_def)

subsection \<open>C7: normalization of an XOR gate\<close>



subsection \<open>C6: normalization of an ATLEAST gate\<close>



subsection \<open>C5: processing ends when the root has become constant\<close>

lemma nor_x_notx_run:
  "map_option (\<lambda>P1. (collapsed P1, graph_root (work P1), root_sign (work P1),
                      state_of (mem (work P1)) (graph_root (work P1)), is_gate (mem (work P1)) 11))
     (PhaseOne 8 (LOG ''Preprocessing Phase I...'' nor_x_notx))
     = Some (True, 11, - 1, kUnityState, True) \<and>
   map_option (\<lambda>R. (graph_root (work R), root_sign (work R),
                     state_of (mem (work R)) (graph_root (work R)), is_gate (mem (work R)) 11))
     (ProcessFaultTree A 8 nor_x_notx) = Some (12, 1, kNullState, False)"
  by code_simp

text \<open>C5, as claimed: once the root gate has become constant after a phase, no rewriting of
  the graph occurs any more. It does on ROOT = NOR(x1, NOT(x1)): after Phase I the root
  is the gate 11, in the Unity state, and the root sign is negative; the check of the
  root that follows (\<^verbatim>\<open>CheckRootGate\<close>) creates the gate 12, makes it the root in the Null
  state and sets the root sign to 1, and the gate 11 is destroyed. This is so whatever the
  rewriting steps of the later phases are, since none of them runs.\<close>

theorem ProcessFaultTree_rewrites_after_collapse:
  "\<forall>A.
   map_option (\<lambda>P1. (collapsed P1, graph_root (work P1), root_sign (work P1),
                      state_of (mem (work P1)) (graph_root (work P1)), is_gate (mem (work P1)) 11))
     (PhaseOne 8 (LOG ''Preprocessing Phase I...'' nor_x_notx))
     = Some (True, 11, - 1, kUnityState, True) \<and>
   map_option (\<lambda>R. (graph_root (work R), root_sign (work R),
                     state_of (mem (work R)) (graph_root (work R)), is_gate (mem (work R)) 11))
     (ProcessFaultTree A 8 nor_x_notx) = Some (12, 1, kNullState, False)"
  using nor_x_notx_run by blast

text \<open>C5, amended: when the root gate is in a state other than Normal after Phase I,
  after Phase II, after Phase III or after Phase IV, \<^verbatim>\<open>ProcessFaultTree\<close> runs no further
  phase, whatever the rewriting steps are: it returns what the check of the root that
  follows the phase (\<^verbatim>\<open>CheckRootGate\<close>) leaves. On such a root that check answers true,
  writes nothing to the log and keeps the flags. When the root sign is not negative it
  leaves the state as it is. When the root sign is negative it replaces the root: the
  new root is a new NULL gate without arguments, at the next index of the counter, in the
  Unity state if the old root was in the Null state and in the Null state otherwise, and
  the root sign becomes 1.\<close>

theorem ProcessFaultTree_stops_after_collapse:
  "(\<forall>P1. PhaseOne fuel (LOG ''Preprocessing Phase I...'' P) = Some P1 \<and> collapsed P1 \<longrightarrow>
      ProcessFaultTree A fuel P
        = Some (snd (check_root (LOG ''Finished Preprocessing Phase I'' P1))))
 \<and> (\<forall>P1 P2 P3.
      PhaseOne fuel (LOG ''Preprocessing Phase I...'' P) = Some P1 \<and>
      check_root (LOG ''Finished Preprocessing Phase I'' P1) = (False, P2) \<and>
      PhaseTwo A fuel (LOG ''Preprocessing Phase II...'' P2) = Some P3 \<and> collapsed P3 \<longrightarrow>
      ProcessFaultTree A fuel P
        = Some (snd (check_root (LOG ''Finished Preprocessing Phase II'' P3))))
 \<and> (\<forall>P1 P2 P3 P4 P5.
      PhaseOne fuel (LOG ''Preprocessing Phase I...'' P) = Some P1 \<and>
      check_root (LOG ''Finished Preprocessing Phase I'' P1) = (False, P2) \<and>
      PhaseTwo A fuel (LOG ''Preprocessing Phase II...'' P2) = Some P3 \<and>
      check_root (LOG ''Finished Preprocessing Phase II'' P3) = (False, P4) \<and>
      \<not> normal P4 \<and>
      PhaseThree A fuel (LOG ''Preprocessing Phase III...'' P4) = Some P5 \<and> collapsed P5 \<longrightarrow>
      ProcessFaultTree A fuel P
        = Some (snd (check_root ((LOG ''Finished Preprocessing Phase III'' P5)\<lparr>normal := True\<rparr>))))
 \<and> (\<forall>P1 P2 P3 P4 P5 P6 P7.
      PhaseOne fuel (LOG ''Preprocessing Phase I...'' P) = Some P1 \<and>
      check_root (LOG ''Finished Preprocessing Phase I'' P1) = (False, P2) \<and>
      PhaseTwo A fuel (LOG ''Preprocessing Phase II...'' P2) = Some P3 \<and>
      check_root (LOG ''Finished Preprocessing Phase II'' P3) = (False, P4) \<and>
      (normal P4 \<and> P6 = P4 \<or>
       \<not> normal P4 \<and> PhaseThree A fuel (LOG ''Preprocessing Phase III...'' P4) = Some P5 \<and>
       check_root ((LOG ''Finished Preprocessing Phase III'' P5)\<lparr>normal := True\<rparr>) = (False, P6)) \<and>
      \<not> coherent P6 \<and>
      PhaseFour A fuel (LOG ''Preprocessing Phase IV...'' P6) = Some P7 \<and> collapsed P7 \<longrightarrow>
      ProcessFaultTree A fuel P
        = Some (snd (check_root (LOG ''Finished Preprocessing Phase IV'' P7))))
 \<and> (\<forall>Q. collapsed Q \<longrightarrow>
      fst (check_root Q) \<and> logger (snd (check_root Q)) = logger Q \<and>
      coherent (snd (check_root Q)) = coherent Q \<and> normal (snd (check_root Q)) = normal Q \<and>
      (0 \<le> root_sign (work Q) \<longrightarrow> snd (check_root Q) = Q) \<and>
      (root_sign (work Q) < 0 \<and> graph_root (work Q) \<noteq> next_index (mem (work Q)) \<longrightarrow>
         graph_root (work (snd (check_root Q))) = next_index (mem (work Q)) \<and>
         root_sign (work (snd (check_root Q))) = 1 \<and>
         gate_view (mem (work (snd (check_root Q)))) (next_index (mem (work Q)))
           = (True, kNullGate,
              if state_of (mem (work Q)) (graph_root (work Q)) = kNullState
              then kUnityState else kNullState, 0, [])))"
proof (intro conjI allI impI)
  fix P1 assume "PhaseOne fuel (LOG ''Preprocessing Phase I...'' P) = Some P1 \<and> collapsed P1"
  then show "ProcessFaultTree A fuel P
        = Some (snd (check_root (LOG ''Finished Preprocessing Phase I'' P1)))"
    using collapsed_stop[of "LOG ''Finished Preprocessing Phase I'' P1"]
    by (simp add: ProcessFaultTree_def Let_def split_beta)
next
  fix P1 P2 P3
  assume "PhaseOne fuel (LOG ''Preprocessing Phase I...'' P) = Some P1 \<and>
      check_root (LOG ''Finished Preprocessing Phase I'' P1) = (False, P2) \<and>
      PhaseTwo A fuel (LOG ''Preprocessing Phase II...'' P2) = Some P3 \<and> collapsed P3"
  then show "ProcessFaultTree A fuel P
        = Some (snd (check_root (LOG ''Finished Preprocessing Phase II'' P3)))"
    using collapsed_stop[of "LOG ''Finished Preprocessing Phase II'' P3"]
    by (simp add: ProcessFaultTree_def Let_def split_beta)
next
  fix P1 P2 P3 P4 P5
  assume "PhaseOne fuel (LOG ''Preprocessing Phase I...'' P) = Some P1 \<and>
      check_root (LOG ''Finished Preprocessing Phase I'' P1) = (False, P2) \<and>
      PhaseTwo A fuel (LOG ''Preprocessing Phase II...'' P2) = Some P3 \<and>
      check_root (LOG ''Finished Preprocessing Phase II'' P3) = (False, P4) \<and>
      \<not> normal P4 \<and>
      PhaseThree A fuel (LOG ''Preprocessing Phase III...'' P4) = Some P5 \<and> collapsed P5"
  then show "ProcessFaultTree A fuel P
        = Some (snd (check_root ((LOG ''Finished Preprocessing Phase III'' P5)\<lparr>normal := True\<rparr>)))"
    using collapsed_stop[of "(LOG ''Finished Preprocessing Phase III'' P5)\<lparr>normal := True\<rparr>"]
    by (simp add: ProcessFaultTree_def Let_def split_beta)
next
  fix P1 P2 P3 P4 P5 P6 P7
  assume a: "PhaseOne fuel (LOG ''Preprocessing Phase I...'' P) = Some P1 \<and>
      check_root (LOG ''Finished Preprocessing Phase I'' P1) = (False, P2) \<and>
      PhaseTwo A fuel (LOG ''Preprocessing Phase II...'' P2) = Some P3 \<and>
      check_root (LOG ''Finished Preprocessing Phase II'' P3) = (False, P4) \<and>
      (normal P4 \<and> P6 = P4 \<or>
       \<not> normal P4 \<and> PhaseThree A fuel (LOG ''Preprocessing Phase III...'' P4) = Some P5 \<and>
       check_root ((LOG ''Finished Preprocessing Phase III'' P5)\<lparr>normal := True\<rparr>) = (False, P6)) \<and>
      \<not> coherent P6 \<and>
      PhaseFour A fuel (LOG ''Preprocessing Phase IV...'' P6) = Some P7 \<and> collapsed P7"
  then show "ProcessFaultTree A fuel P
        = Some (snd (check_root (LOG ''Finished Preprocessing Phase IV'' P7)))"
    using collapsed_stop[of "LOG ''Finished Preprocessing Phase IV'' P7"]
    by (auto simp: ProcessFaultTree_def Let_def split_beta)
next
  fix Q assume "collapsed Q" then show "fst (check_root Q)" by (rule collapsed_stop)
next
  fix Q show "logger (snd (check_root Q)) = logger Q" by simp
next
  fix Q show "coherent (snd (check_root Q)) = coherent Q" by simp
next
  fix Q show "normal (snd (check_root Q)) = normal Q" by simp
next
  fix Q assume "collapsed Q" "0 \<le> root_sign (work Q)"
  then show "snd (check_root Q) = Q" by (rule collapsed_keeps)
next
  fix Q
  assume "collapsed Q"
    "root_sign (work Q) < 0 \<and> graph_root (work Q) \<noteq> next_index (mem (work Q))"
  then show "graph_root (work (snd (check_root Q))) = next_index (mem (work Q))"
    "root_sign (work (snd (check_root Q))) = 1"
    "gate_view (mem (work (snd (check_root Q)))) (next_index (mem (work Q)))
           = (True, kNullGate,
              if state_of (mem (work Q)) (graph_root (work Q)) = kNullState
              then kUnityState else kNullState, 0, [])"
    using collapsed_replaces[of Q] by simp_all
qed

theorem ProcessFaultTree_stops_after_collapse_witness:
  "map_option (\<lambda>R. (logger R, graph_root (work R), root_sign (work R), gate_view (mem (work R)) 12))
     (ProcessFaultTree no_rewriting 8 nor_x_notx)
     = Some ([''Preprocessing Phase I...'', ''Partial normalization of gates...'',
              ''Finished the partial normalization of gates!'',
              ''Finished Preprocessing Phase I''],
             12, 1, (True, kNullGate, kNullState, 0, [])) \<and>
   map_option logger (ProcessFaultTree (collapsing (\<lambda>w. True)) 8 or12)
     = Some [''Preprocessing Phase I...'', ''Finished Preprocessing Phase I'',
             ''Preprocessing Phase II...'', ''Detecting multiple definitions...'',
             ''Finished multi-definition detection'', ''Detecting modules...'',
             ''Finished module detection!'', ''Merging common arguments...'',
             ''Finished merging common args'', ''Boolean optimization...'',
             ''Finished Boolean optimization'', ''Finished Preprocessing Phase II''] \<and>
   map_option (last \<circ> logger) (ProcessFaultTree (collapsing root_is_or) 8 xor12)
     = Some ''Finished Preprocessing Phase III'' \<and>
   map_option (last \<circ> logger) (ProcessFaultTree (collapsing gate_10_is_and) 8 and_n_or)
     = Some ''Finished Preprocessing Phase IV''"
proof -
  \<comment> \<open>the root is constant after Phase I, with a negative root sign\<close>
  let ?X = "LOG ''Preprocessing Phase I...'' nor_x_notx"
  let ?Q = "LOG ''Finished Preprocessing Phase I'' (the (PhaseOne 8 ?X))"
  have "\<not> Option.is_none (PhaseOne 8 ?X)" by code_simp
  then have a1: "PhaseOne 8 ?X = Some (the (PhaseOne 8 ?X))" by (rule is_none_the)
  have a2: "collapsed (the (PhaseOne 8 ?X))" by code_simp
  have a3: "collapsed ?Q" using a2 by simp
  have a4: "root_sign (work ?Q) < 0 \<and> graph_root (work ?Q) \<noteq> next_index (mem (work ?Q))"
    by code_simp
  have a5: "next_index (mem (work ?Q)) = 12" "state_of (mem (work ?Q)) (graph_root (work ?Q)) = kUnityState"
    "logger ?Q = [''Preprocessing Phase I...'', ''Partial normalization of gates...'',
              ''Finished the partial normalization of gates!'',
              ''Finished Preprocessing Phase I'']"
    by code_simp+
  note T1 = ProcessFaultTree_stops_after_collapse [of 8 nor_x_notx no_rewriting]
  from T1 a1 a2
  have r1: "ProcessFaultTree no_rewriting 8 nor_x_notx = Some (snd (check_root ?Q))"
    by blast
  from T1 a3 a4
  have r1': "logger (snd (check_root ?Q)) = logger ?Q \<and>
         graph_root (work (snd (check_root ?Q))) = next_index (mem (work ?Q)) \<and>
         root_sign (work (snd (check_root ?Q))) = 1 \<and>
         gate_view (mem (work (snd (check_root ?Q)))) (next_index (mem (work ?Q)))
           = (True, kNullGate,
              if state_of (mem (work ?Q)) (graph_root (work ?Q)) = kNullState
              then kUnityState else kNullState, 0, [])"
    by blast
  have c1: "map_option (\<lambda>R. (logger R, graph_root (work R), root_sign (work R), gate_view (mem (work R)) 12))
     (ProcessFaultTree no_rewriting 8 nor_x_notx)
     = Some ([''Preprocessing Phase I...'', ''Partial normalization of gates...'',
              ''Finished the partial normalization of gates!'',
              ''Finished Preprocessing Phase I''],
             12, 1, (True, kNullGate, kNullState, 0, []))"
    unfolding r1 using r1' a5 by simp
  \<comment> \<open>the root is constant after Phase II\<close>
  let ?A2 = "collapsing (\<lambda>w. True)"
  let ?Y = "LOG ''Preprocessing Phase I...'' or12"
  let ?C1 = "check_root (LOG ''Finished Preprocessing Phase I'' (the (PhaseOne 8 ?Y)))"
  let ?P3 = "the (PhaseTwo ?A2 8 (LOG ''Preprocessing Phase II...'' (snd ?C1)))"
  have "\<not> Option.is_none (PhaseOne 8 ?Y)" by code_simp
  then have b1: "PhaseOne 8 ?Y = Some (the (PhaseOne 8 ?Y))" by (rule is_none_the)
  have "\<not> fst ?C1" by code_simp
  then have b2: "?C1 = (False, snd ?C1)" by (rule not_fst_snd)
  have "\<not> Option.is_none (PhaseTwo ?A2 8 (LOG ''Preprocessing Phase II...'' (snd ?C1)))"
    by code_simp
  then have b3: "PhaseTwo ?A2 8 (LOG ''Preprocessing Phase II...'' (snd ?C1)) = Some ?P3"
    by (rule is_none_the)
  have b4: "collapsed ?P3" by code_simp
  have b5: "logger ?P3 = [''Preprocessing Phase I...'', ''Finished Preprocessing Phase I'',
             ''Preprocessing Phase II...'', ''Detecting multiple definitions...'',
             ''Finished multi-definition detection'', ''Detecting modules...'',
             ''Finished module detection!'', ''Merging common arguments...'',
             ''Finished merging common args'', ''Boolean optimization...'',
             ''Finished Boolean optimization'']" by code_simp
  from ProcessFaultTree_stops_after_collapse [of 8 or12 ?A2] b1 b2 b3 b4
  have r2: "ProcessFaultTree ?A2 8 or12
        = Some (snd (check_root (LOG ''Finished Preprocessing Phase II'' ?P3)))"
    by blast
  have c2: "map_option logger (ProcessFaultTree ?A2 8 or12)
     = Some [''Preprocessing Phase I...'', ''Finished Preprocessing Phase I'',
             ''Preprocessing Phase II...'', ''Detecting multiple definitions...'',
             ''Finished multi-definition detection'', ''Detecting modules...'',
             ''Finished module detection!'', ''Merging common arguments...'',
             ''Finished merging common args'', ''Boolean optimization...'',
             ''Finished Boolean optimization'', ''Finished Preprocessing Phase II'']"
    unfolding r2 using b5 by simp
  \<comment> \<open>the root is constant after Phase III\<close>
  let ?A3 = "collapsing root_is_or"
  let ?Z = "LOG ''Preprocessing Phase I...'' xor12"
  let ?D1 = "check_root (LOG ''Finished Preprocessing Phase I'' (the (PhaseOne 8 ?Z)))"
  let ?D3 = "the (PhaseTwo ?A3 8 (LOG ''Preprocessing Phase II...'' (snd ?D1)))"
  let ?D4 = "check_root (LOG ''Finished Preprocessing Phase II'' ?D3)"
  let ?D5 = "the (PhaseThree ?A3 8 (LOG ''Preprocessing Phase III...'' (snd ?D4)))"
  have "\<not> Option.is_none (PhaseOne 8 ?Z)" by code_simp
  then have d1: "PhaseOne 8 ?Z = Some (the (PhaseOne 8 ?Z))" by (rule is_none_the)
  have "\<not> fst ?D1" by code_simp
  then have d2: "?D1 = (False, snd ?D1)" by (rule not_fst_snd)
  have "\<not> Option.is_none (PhaseTwo ?A3 8 (LOG ''Preprocessing Phase II...'' (snd ?D1)))"
    by code_simp
  then have d3: "PhaseTwo ?A3 8 (LOG ''Preprocessing Phase II...'' (snd ?D1)) = Some ?D3"
    by (rule is_none_the)
  have "\<not> fst ?D4" by code_simp
  then have d4: "?D4 = (False, snd ?D4)" by (rule not_fst_snd)
  have d5: "\<not> normal (snd ?D4)" by code_simp
  have "\<not> Option.is_none (PhaseThree ?A3 8 (LOG ''Preprocessing Phase III...'' (snd ?D4)))"
    by code_simp
  then have d6: "PhaseThree ?A3 8 (LOG ''Preprocessing Phase III...'' (snd ?D4)) = Some ?D5"
    by (rule is_none_the)
  have d7: "collapsed ?D5" by code_simp
  from ProcessFaultTree_stops_after_collapse [of 8 xor12 ?A3] d1 d2 d3 d4 d5 d6 d7
  have r3: "ProcessFaultTree ?A3 8 xor12
        = Some (snd (check_root ((LOG ''Finished Preprocessing Phase III'' ?D5)\<lparr>normal := True\<rparr>)))"
    by blast
  have c3: "map_option (last \<circ> logger) (ProcessFaultTree ?A3 8 xor12)
     = Some ''Finished Preprocessing Phase III''"
    unfolding r3 by simp
  \<comment> \<open>the root is constant after Phase IV\<close>
  let ?A4 = "collapsing gate_10_is_and"
  let ?U = "LOG ''Preprocessing Phase I...'' and_n_or"
  let ?E1 = "check_root (LOG ''Finished Preprocessing Phase I'' (the (PhaseOne 8 ?U)))"
  let ?E3 = "the (PhaseTwo ?A4 8 (LOG ''Preprocessing Phase II...'' (snd ?E1)))"
  let ?E4 = "check_root (LOG ''Finished Preprocessing Phase II'' ?E3)"
  let ?E7 = "the (PhaseFour ?A4 8 (LOG ''Preprocessing Phase IV...'' (snd ?E4)))"
  have "\<not> Option.is_none (PhaseOne 8 ?U)" by code_simp
  then have e1: "PhaseOne 8 ?U = Some (the (PhaseOne 8 ?U))" by (rule is_none_the)
  have "\<not> fst ?E1" by code_simp
  then have e2: "?E1 = (False, snd ?E1)" by (rule not_fst_snd)
  have "\<not> Option.is_none (PhaseTwo ?A4 8 (LOG ''Preprocessing Phase II...'' (snd ?E1)))"
    by code_simp
  then have e3: "PhaseTwo ?A4 8 (LOG ''Preprocessing Phase II...'' (snd ?E1)) = Some ?E3"
    by (rule is_none_the)
  have "\<not> fst ?E4" by code_simp
  then have e4: "?E4 = (False, snd ?E4)" by (rule not_fst_snd)
  have e5: "normal (snd ?E4) \<and> \<not> coherent (snd ?E4)" by code_simp
  have "\<not> Option.is_none (PhaseFour ?A4 8 (LOG ''Preprocessing Phase IV...'' (snd ?E4)))"
    by code_simp
  then have e6: "PhaseFour ?A4 8 (LOG ''Preprocessing Phase IV...'' (snd ?E4)) = Some ?E7"
    by (rule is_none_the)
  have e7: "collapsed ?E7" by code_simp
  from ProcessFaultTree_stops_after_collapse [of 8 and_n_or ?A4] e1 e2 e3 e4 e5 e6 e7
  have r4: "ProcessFaultTree ?A4 8 and_n_or
        = Some (snd (check_root (LOG ''Finished Preprocessing Phase IV'' ?E7)))"
    by blast
  have c4: "map_option (last \<circ> logger) (ProcessFaultTree ?A4 8 and_n_or)
     = Some ''Finished Preprocessing Phase IV''"
    unfolding r4 by simp
  from c1 c2 c3 c4 show ?thesis by blast
qed

subsection \<open>C9: Boolean optimization runs on coherent graphs only\<close>

text \<open>C9: on a graph whose coherent flag is false, Phase II does not call
  \<^verbatim>\<open>BooleanOptimization\<close>: what Phase II returns, and whether it returns, is the same
  whatever function stands for \<^verbatim>\<open>BooleanOptimization\<close>, and Phase II does not write the
  line "Boolean optimization..." to the log. The same holds of every run of Phase II in
  \<^verbatim>\<open>ProcessFaultTree\<close>, on its own and inside the Phases III, IV and V, because no
  phase changes the coherent flag.\<close>

theorem BooleanOptimization_only_if_coherent:
  assumes "\<not> coherent P"
  shows "PhaseTwo (A\<lparr>BooleanOptimization := f\<rparr>) fuel P = PhaseTwo A fuel P
       \<and> ProcessFaultTree (A\<lparr>BooleanOptimization := f\<rparr>) fuel P = ProcessFaultTree A fuel P
       \<and> (PhaseTwo A fuel P = Some P' \<longrightarrow>
            coherent P' = coherent P \<and>
            (\<exists>l. logger P' = logger P @ l \<and> ''Boolean optimization...'' \<notin> set l))"
  using assms PhaseTwo_indep ProcessFaultTree_indep PhaseTwo_flags PhaseTwo_log by blast

theorem BooleanOptimization_only_if_coherent_witness:
  "\<not> coherent or1n2 \<and>
   PhaseTwo (no_rewriting\<lparr>BooleanOptimization := (\<lambda>w. None)\<rparr>) 8 or1n2 = PhaseTwo no_rewriting 8 or1n2 \<and>
   ProcessFaultTree (no_rewriting\<lparr>BooleanOptimization := (\<lambda>w. None)\<rparr>) 8 or1n2
     = ProcessFaultTree no_rewriting 8 or1n2 \<and>
   ProcessFaultTree no_rewriting 8 or1n2 \<noteq> None \<and>
   ProcessFaultTree (no_rewriting\<lparr>BooleanOptimization := (\<lambda>w. None)\<rparr>) 8 or12 = None"
proof -
  have a: "\<not> coherent or1n2" by (simp add: or1n2_def start_def)
  have "\<not> Option.is_none (ProcessFaultTree no_rewriting 8 or1n2)" by code_simp
  then have b: "ProcessFaultTree no_rewriting 8 or1n2 \<noteq> None"
    by (simp add: Option.is_none_def)
  have "Option.is_none
          (ProcessFaultTree (no_rewriting\<lparr>BooleanOptimization := (\<lambda>w. None)\<rparr>) 8 or12)"
    by code_simp
  then have c: "ProcessFaultTree (no_rewriting\<lparr>BooleanOptimization := (\<lambda>w. None)\<rparr>) 8 or12 = None"
    by (simp add: Option.is_none_def)
  from BooleanOptimization_only_if_coherent [OF a] a b c show ?thesis by simp
qed

subsection \<open>C1: the value of the graph\<close>

text \<open>C1 fails on the graph ROOT = NOT(c) with \<open>c\<close> a constant of value false, which is
  true under every assignment. \<^verbatim>\<open>RemoveConstants\<close> makes the root constant, in the Unity
  state. \<^verbatim>\<open>PhaseOne\<close> goes on to \<^verbatim>\<open>NormalizeGates\<close>, which negates the root sign since
  the kind of the root is still NOT (and calls \<^verbatim>\<open>NormalizeGate\<close> on a gate that is not
  in the Normal state its assertion asks for). \<^verbatim>\<open>CheckRootGate\<close> then folds the negative
  sign into a new root in the Null state: whatever the rewriting steps are,
  \<^verbatim>\<open>ProcessFaultTree\<close> returns the graph that is false under every assignment, with the
  root sign 1.\<close>

theorem ProcessFaultTree_not_false:
  "graph_value 3 (work not_false) v = Some True \<and>
   map_option (\<lambda>w. state_of (mem w) (graph_root w)) (RemoveConstants 8 (work not_false))
     = Some kUnityState \<and>
   map_option (\<lambda>R. (graph_value 3 (work R) v, root_sign (work R),
                     state_of (mem (work R)) (graph_root (work R))))
     (ProcessFaultTree A 8 not_false) = Some (Some False, 1, kNullState)"
  by code_simp

end
